theory Spec2Isabelle
  imports Complex_Main
begin

section \<open>Ligand-metal docking: the embedding\<close>

text \<open>
  The embedding follows \<^verbatim>\<open>src/matterfold/mofs/ligand_metal_docking.py\<close>.

  \<^item> The arithmetic of numpy's float64 is a parameter (the record \<open>arith\<close>): the
    model computes with whatever addition, division, square root, comparison and
    minimum it is given, and nothing is assumed about them. IEEE arithmetic with its
    rounding, its infinities and its NaN is one instance, and every theorem that is
    stated for an arbitrary \<open>ar\<close> holds for it.
  \<^item> An ASE \<^verbatim>\<open>Atoms\<close> object is a list of atoms (species label and position); the
    objects live in a store, since \<^verbatim>\<open>copy\<close>, \<^verbatim>\<open>set_positions\<close> and \<^verbatim>\<open>+=\<close>
    act on object identities.
  \<^item> \<^verbatim>\<open>scipy.optimize.minimize\<close> and \<^verbatim>\<open>scipy.spatial.ConvexHull\<close> are external:
    they are parameters too (the record \<open>scipy\<close>), and every call of the optimizer is
    logged.
\<close>

subsection \<open>Floating-point arithmetic as a parameter\<close>

text \<open>
  \<open>f_zero\<close>, \<open>f_one\<close>, \<open>f_tiny\<close> are the literals \<^verbatim>\<open>0.0\<close>, \<^verbatim>\<open>1.0\<close> and
  \<^verbatim>\<open>1e-10\<close>; \<open>f_count n\<close> is the count n as a float (the divisor of \<^verbatim>\<open>np.mean\<close>);
  \<open>f_lt\<close> is \<^verbatim>\<open><\<close> and \<open>f_min\<close> is \<^verbatim>\<open>np.minimum\<close>.
\<close>

record 'f arith =
  f_zero :: 'f
  f_one :: 'f
  f_tiny :: 'f
  f_count :: "nat \<Rightarrow> 'f"
  f_add :: "'f \<Rightarrow> 'f \<Rightarrow> 'f"
  f_sub :: "'f \<Rightarrow> 'f \<Rightarrow> 'f"
  f_mul :: "'f \<Rightarrow> 'f \<Rightarrow> 'f"
  f_div :: "'f \<Rightarrow> 'f \<Rightarrow> 'f"
  f_neg :: "'f \<Rightarrow> 'f"
  f_sqrt :: "'f \<Rightarrow> 'f"
  f_cos :: "'f \<Rightarrow> 'f"
  f_sin :: "'f \<Rightarrow> 'f"
  f_lt :: "'f \<Rightarrow> 'f \<Rightarrow> bool"
  f_min :: "'f \<Rightarrow> 'f \<Rightarrow> 'f"

subsection \<open>Vectors and matrices (numpy arrays of shape (3,) and (3,3))\<close>

type_synonym 'f vec3 = "'f \<times> 'f \<times> 'f"
type_synonym 'f mat3 = "'f vec3 \<times> 'f vec3 \<times> 'f vec3"

fun vadd :: "'f arith \<Rightarrow> 'f vec3 \<Rightarrow> 'f vec3 \<Rightarrow> 'f vec3" where
  "vadd ar (a, b, c) (x, y, z) = (f_add ar a x, f_add ar b y, f_add ar c z)"

fun vsub :: "'f arith \<Rightarrow> 'f vec3 \<Rightarrow> 'f vec3 \<Rightarrow> 'f vec3" where
  "vsub ar (a, b, c) (x, y, z) = (f_sub ar a x, f_sub ar b y, f_sub ar c z)"

fun smul :: "'f arith \<Rightarrow> 'f \<Rightarrow> 'f vec3 \<Rightarrow> 'f vec3" where
  "smul ar s (x, y, z) = (f_mul ar s x, f_mul ar s y, f_mul ar s z)"

fun vdiv :: "'f arith \<Rightarrow> 'f vec3 \<Rightarrow> 'f \<Rightarrow> 'f vec3" where
  "vdiv ar (x, y, z) s = (f_div ar x s, f_div ar y s, f_div ar z s)"

text \<open>\<^verbatim>\<open>np.sum\<close> of a one-dimensional array, added up from the left; the sum of
  nothing is \<^verbatim>\<open>0.0\<close>.\<close>

fun np_sum :: "'f arith \<Rightarrow> 'f list \<Rightarrow> 'f" where
  "np_sum ar [] = f_zero ar"
| "np_sum ar (x # xs) = foldl (f_add ar) x xs"

text \<open>\<^verbatim>\<open>np.linalg.norm\<close> of one row: the square root of the sum of the squares
  (line 49 computes the sum as the dot product of the vector with itself).\<close>

fun norm3 :: "'f arith \<Rightarrow> 'f vec3 \<Rightarrow> 'f" where
  "norm3 ar (x, y, z) =
     f_sqrt ar (f_add ar (f_add ar (f_mul ar x x) (f_mul ar y y)) (f_mul ar z z))"

text \<open>\<^verbatim>\<open>np.mean(rows, axis=0)\<close>: each column's sum divided by the number of rows.
  With no rows this is \<^verbatim>\<open>0.0 / 0\<close> in every column (NaN in IEEE arithmetic, with a
  warning and no exception).\<close>

definition np_mean :: "'f arith \<Rightarrow> 'f vec3 list \<Rightarrow> 'f vec3" where
  "np_mean ar rows =
     (let n = f_count ar (length rows)
      in (f_div ar (np_sum ar (map fst rows)) n,
          f_div ar (np_sum ar (map (\<lambda>r. fst (snd r)) rows)) n,
          f_div ar (np_sum ar (map (\<lambda>r. snd (snd r)) rows)) n))"

text \<open>\<^verbatim>\<open>np.min\<close> along an axis of positive length, reduced from the left with
  \<^verbatim>\<open>np.minimum\<close>. An axis of length 0 raises; the callers test that first, so the
  first equation is never used.\<close>

fun np_min :: "'f arith \<Rightarrow> 'f list \<Rightarrow> 'f" where
  "np_min ar [] = f_zero ar"
| "np_min ar (x # xs) = foldl (f_min ar) x xs"

fun dot3 :: "'f arith \<Rightarrow> 'f vec3 \<Rightarrow> 'f vec3 \<Rightarrow> 'f" where
  "dot3 ar (a, b, c) (x, y, z) =
     f_add ar (f_add ar (f_mul ar a x) (f_mul ar b y)) (f_mul ar c z)"

fun transpose3 :: "'f mat3 \<Rightarrow> 'f mat3" where
  "transpose3 ((a, b, c), (d, e, f), (g, h, i)) = ((a, d, g), (b, e, h), (c, f, i))"

text \<open>\<^verbatim>\<open>A @ B\<close>: rows of A against columns of B.\<close>

definition matmul :: "'f arith \<Rightarrow> 'f mat3 \<Rightarrow> 'f mat3 \<Rightarrow> 'f mat3" where
  "matmul ar A B =
     (case A of (r1, r2, r3) \<Rightarrow>
      case transpose3 B of (c1, c2, c3) \<Rightarrow>
        ((dot3 ar r1 c1, dot3 ar r1 c2, dot3 ar r1 c3),
         (dot3 ar r2 c1, dot3 ar r2 c2, dot3 ar r2 c3),
         (dot3 ar r3 c1, dot3 ar r3 c2, dot3 ar r3 c3)))"

text \<open>\<^verbatim>\<open>np.dot(v, M)\<close> for one row v: the row against the columns of M.\<close>

definition row_dot :: "'f arith \<Rightarrow> 'f vec3 \<Rightarrow> 'f mat3 \<Rightarrow> 'f vec3" where
  "row_dot ar v M =
     (case transpose3 M of (c1, c2, c3) \<Rightarrow> (dot3 ar v c1, dot3 ar v c2, dot3 ar v c3))"

definition Rx :: "'f arith \<Rightarrow> 'f \<Rightarrow> 'f mat3" where
  "Rx ar theta_x =
     ((f_one ar, f_zero ar, f_zero ar),
      (f_zero ar, f_cos ar theta_x, f_neg ar (f_sin ar theta_x)),
      (f_zero ar, f_sin ar theta_x, f_cos ar theta_x))"

definition Ry :: "'f arith \<Rightarrow> 'f \<Rightarrow> 'f mat3" where
  "Ry ar theta_y =
     ((f_cos ar theta_y, f_zero ar, f_sin ar theta_y),
      (f_zero ar, f_one ar, f_zero ar),
      (f_neg ar (f_sin ar theta_y), f_zero ar, f_cos ar theta_y))"

definition Rz :: "'f arith \<Rightarrow> 'f \<Rightarrow> 'f mat3" where
  "Rz ar theta_z =
     ((f_cos ar theta_z, f_neg ar (f_sin ar theta_z), f_zero ar),
      (f_sin ar theta_z, f_cos ar theta_z, f_zero ar),
      (f_zero ar, f_zero ar, f_one ar))"

text \<open>Lines 81-91 and 135-145: \<^verbatim>\<open>R = Rz @ Ry @ Rx\<close>.\<close>

fun rotation_matrix :: "'f arith \<Rightarrow> 'f vec3 \<Rightarrow> 'f mat3" where
  "rotation_matrix ar (theta_x, theta_y, theta_z) =
     matmul ar (matmul ar (Rz ar theta_z) (Ry ar theta_y)) (Rx ar theta_x)"

text \<open>Lines 93-96 and 147-150:
  \<^verbatim>\<open>np.dot(metal_center_positions - optimal_position, R.T) + optimal_position\<close>.\<close>

definition rotated_positions ::
  "'f arith \<Rightarrow> 'f vec3 list \<Rightarrow> 'f vec3 \<Rightarrow> 'f vec3 \<Rightarrow> 'f vec3 list" where
  "rotated_positions ar metal_center_positions optimal_position rotation_angles =
     map (\<lambda>p. vadd ar (row_dot ar (vsub ar p optimal_position)
                          (transpose3 (rotation_matrix ar rotation_angles)))
                       optimal_position)
         metal_center_positions"

text \<open>Lines 76-77: \<^verbatim>\<open>metal_center_positions += optimal_position - metal_center_positions[c]\<close>.
  The index is in range at the call (it is tested before).\<close>

definition translated_positions ::
  "'f arith \<Rightarrow> 'f vec3 list \<Rightarrow> nat \<Rightarrow> 'f vec3 \<Rightarrow> 'f vec3 list" where
  "translated_positions ar metal_center_positions coordinating_atom_index optimal_position =
     (let translation_vector =
            vsub ar optimal_position (metal_center_positions ! coordinating_atom_index)
      in map (\<lambda>p. vadd ar p translation_vector) metal_center_positions)"

subsection \<open>Exceptions and results\<close>

text \<open>
  \<^verbatim>\<open>IndexError\<close>: an index out of range (numpy indexing).
  \<^verbatim>\<open>HullError name\<close>: the exception raised by \<^verbatim>\<open>ConvexHull\<close>, by the name of its
  class (\<^verbatim>\<open>QhullError\<close>, or \<^verbatim>\<open>ValueError\<close> when no points are given).
  \<^verbatim>\<open>ZeroSizeReduction\<close>: the ValueError of \<^verbatim>\<open>np.min\<close> along an axis of length 0.
  \<^verbatim>\<open>StericHindrance\<close>: the ValueError of line 177.
\<close>

datatype exn = IndexError | HullError string | ZeroSizeReduction | StericHindrance

datatype 'a result = Ok 'a | Raise exn

subsection \<open>Indexing\<close>

text \<open>\<^verbatim>\<open>rows[indices]\<close> with a list of Python ints: a negative index counts from the
  end, an index outside \<open>[-n, n)\<close> raises IndexError.\<close>

definition take_rows :: "'a list \<Rightarrow> int list \<Rightarrow> 'a list option" where
  "take_rows rows indices =
     (let n = int (length rows)
      in if (\<forall>i \<in> set indices. - n \<le> i \<and> i < n)
         then Some (map (\<lambda>i. rows ! nat (if i < 0 then i + n else i)) indices)
         else None)"

text \<open>\<^verbatim>\<open>np.delete(np.arange(n), c)\<close> used as an index: the rows other than row c.\<close>

definition delete_row :: "nat \<Rightarrow> 'a list \<Rightarrow> 'a list" where
  "delete_row c rows = take c rows @ drop (Suc c) rows"

text \<open>\<^verbatim>\<open>np.unique\<close>: the sorted distinct values.\<close>

definition np_unique :: "nat list \<Rightarrow> nat list" where
  "np_unique xs = sort (remdups xs)"

subsection \<open>Site geometry (lines 38-54)\<close>

text \<open>Lines 43-54. \<open>n\<close> is \<^verbatim>\<open>len(ligand)\<close>. The comprehension of line 43 compares
  the indices 0..n-1 with the entries of the site as Python ints.\<close>

definition direction_vector ::
  "'f arith \<Rightarrow> 'f vec3 list \<Rightarrow> nat \<Rightarrow> int list \<Rightarrow> 'f vec3 \<Rightarrow> 'f vec3 result" where
  "direction_vector ar ligand_positions n site_indices site_centroid =
     (let non_site_indices = filter (\<lambda>i. int i \<notin> set site_indices) [0..<n]
      in if non_site_indices = [] then Ok (f_zero ar, f_zero ar, f_one ar)
         else case take_rows ligand_positions (map int non_site_indices) of
                None \<Rightarrow> Raise IndexError
              | Some non_site_positions \<Rightarrow>
                 (let non_site_centroid = np_mean ar non_site_positions;
                      direction = vsub ar site_centroid non_site_centroid;
                      norm = norm3 ar direction
                  in if f_lt ar norm (f_tiny ar) then Ok (f_zero ar, f_zero ar, f_one ar)
                     else Ok (vdiv ar direction norm)))"

text \<open>Lines 38-54: site positions, site centroid and direction vector.\<close>

definition site_geometry ::
  "'f arith \<Rightarrow> 'f vec3 list \<Rightarrow> nat \<Rightarrow> int list
     \<Rightarrow> ('f vec3 list \<times> 'f vec3 \<times> 'f vec3) result" where
  "site_geometry ar ligand_positions n site_indices =
     (case take_rows ligand_positions site_indices of
        None \<Rightarrow> Raise IndexError
      | Some site_positions \<Rightarrow>
         (let site_centroid = np_mean ar site_positions
          in case direction_vector ar ligand_positions n site_indices site_centroid of
               Ok d \<Rightarrow> Ok (site_positions, site_centroid, d)
             | Raise e \<Rightarrow> Raise e))"

subsection \<open>The external library\<close>

text \<open>
  \<^verbatim>\<open>ConvexHull(points).simplices\<close>: the facets as rows of point indices, or the name
  of the exception it raises. \<^verbatim>\<open>minimize(f, x0, method='L-BFGS-B').x\<close> for a scalar
  and for three angles. Nothing is assumed about what they return.
\<close>

record 'f scipy =
  hull_simplices :: "'f vec3 list \<Rightarrow> string + nat list list"
  minimize1 :: "('f \<Rightarrow> 'f) \<Rightarrow> 'f \<Rightarrow> 'f"
  minimize3 :: "('f vec3 \<Rightarrow> 'f) \<Rightarrow> 'f vec3 \<Rightarrow> 'f vec3"

text \<open>A logged call of \<^verbatim>\<open>minimize\<close>, with its seed.\<close>

datatype 'f call = Minimize_position 'f | Minimize_rotation "'f vec3"

subsection \<open>Position solver (lines 57-64)\<close>

definition position_objective_function ::
  "'f arith \<Rightarrow> 'f vec3 list \<Rightarrow> 'f vec3 \<Rightarrow> 'f vec3 \<Rightarrow> 'f \<Rightarrow> 'f \<Rightarrow> 'f" where
  "position_objective_function ar site_positions site_centroid direction bond_distance
     scale_factor =
     (let proposed_position = vadd ar site_centroid (smul ar scale_factor direction);
          distances = map (\<lambda>p. norm3 ar (vsub ar p proposed_position)) site_positions
      in np_sum ar (map (\<lambda>d. f_mul ar (f_sub ar d bond_distance) (f_sub ar d bond_distance))
                        distances))"

text \<open>Lines 38-64: the solved position, with the call of the optimizer it made.\<close>

definition solve_position ::
  "'f arith \<Rightarrow> 'f scipy \<Rightarrow> 'f vec3 list \<Rightarrow> nat \<Rightarrow> int list \<Rightarrow> 'f
     \<Rightarrow> 'f call list \<times> 'f vec3 result" where
  "solve_position ar lib ligand_positions n site_indices bond_distance =
     (case site_geometry ar ligand_positions n site_indices of
        Raise e \<Rightarrow> ([], Raise e)
      | Ok (site_positions, site_centroid, direction) \<Rightarrow>
         (let x = minimize1 lib
                    (position_objective_function ar site_positions site_centroid
                       direction bond_distance)
                    bond_distance
          in ([Minimize_position bond_distance],
              Ok (vadd ar site_centroid (smul ar x direction)))))"

subsection \<open>Coordinating atom (lines 67-69)\<close>

definition first_unique_index :: "nat list list \<Rightarrow> nat option" where
  "first_unique_index simplices =
     (case np_unique (concat simplices) of [] \<Rightarrow> None | c # _ \<Rightarrow> Some c)"

definition coordinating_atom :: "'f scipy \<Rightarrow> 'f vec3 list \<Rightarrow> nat result" where
  "coordinating_atom lib metal_positions =
     (case hull_simplices lib metal_positions of
        Inl name \<Rightarrow> Raise (HullError name)
      | Inr simplices \<Rightarrow>
         (case first_unique_index simplices of
            None \<Rightarrow> Raise IndexError
          | Some c \<Rightarrow> Ok c))"

subsection \<open>Rotation optimizer and steric check (lines 76-177)\<close>

text \<open>Lines 104-122 and 157-174: for each row of \<open>metal_atoms_positions\<close> the least
  distance to a ligand atom and, once a cluster has been placed, to a recorded atom of
  the earlier clusters, as \<^verbatim>\<open>np.min\<close> and \<^verbatim>\<open>np.minimum\<close> compute them.\<close>

definition min_distances ::
  "'f arith \<Rightarrow> 'f vec3 list \<Rightarrow> 'f vec3 list list \<Rightarrow> 'f vec3 list \<Rightarrow> 'f list result" where
  "min_distances ar ligand_positions previous_metal_positions metal_atoms_positions =
     (if ligand_positions = [] then Raise ZeroSizeReduction
      else
        let dists =
              map (\<lambda>m. np_min ar (map (\<lambda>l. norm3 ar (vsub ar m l)) ligand_positions))
                  metal_atoms_positions
        in if previous_metal_positions \<noteq> [] then
             (let prev_metals = concat previous_metal_positions
              in if prev_metals = [] then Raise ZeroSizeReduction
                 else Ok (map2 (f_min ar) dists
                            (map (\<lambda>m. np_min ar (map (\<lambda>q. norm3 ar (vsub ar m q)) prev_metals))
                                 metal_atoms_positions)))
           else Ok dists)"

text \<open>Lines 80-124. \<open>metal_center_positions\<close> are the translated rows.\<close>

definition rotation_objective_function ::
  "'f arith \<Rightarrow> 'f vec3 list \<Rightarrow> 'f vec3 list list \<Rightarrow> 'f vec3 list \<Rightarrow> nat \<Rightarrow> 'f vec3 \<Rightarrow> 'f vec3
     \<Rightarrow> 'f result" where
  "rotation_objective_function ar ligand_positions previous_metal_positions
     metal_center_positions coordinating_atom_index optimal_position rotation_angles =
     (let rotated = rotated_positions ar metal_center_positions optimal_position
                      rotation_angles;
          metal_atoms_positions = delete_row coordinating_atom_index rotated
      in case min_distances ar ligand_positions previous_metal_positions
                metal_atoms_positions of
           Ok dists \<Rightarrow> Ok (f_neg ar (np_sum ar dists))
         | Raise e \<Rightarrow> Raise e)"

text \<open>Lines 76-150 for one site: translation, rotation optimisation from the zero
  angles and final rotation. The objective raises either at every angle or at none,
  and \<open>orient\<close> below tests that before this value is used.\<close>

definition optimized_positions ::
  "'f arith \<Rightarrow> 'f scipy \<Rightarrow> 'f vec3 list \<Rightarrow> 'f vec3 list list \<Rightarrow> 'f vec3 list \<Rightarrow> nat
     \<Rightarrow> 'f vec3 \<Rightarrow> 'f vec3 list" where
  "optimized_positions ar lib ligand_positions previous_metal_positions metal_positions
     coordinating_atom_index optimal_position =
     (let metal_center_positions =
            translated_positions ar metal_positions coordinating_atom_index optimal_position;
          objective = rotation_objective_function ar ligand_positions
            previous_metal_positions metal_center_positions coordinating_atom_index
            optimal_position;
          angles = minimize3 lib (\<lambda>a. case objective a of Ok v \<Rightarrow> v | _ \<Rightarrow> f_zero ar)
                     (f_zero ar, f_zero ar, f_zero ar)
      in rotated_positions ar metal_center_positions optimal_position angles)"

text \<open>Lines 76-177 for one site, with the steric check. \<open>metal_positions\<close> are the rows
  of the fresh copy of the template (\<^verbatim>\<open>len(metal_center)\<close> is their number). An
  exception of the objective leaves \<^verbatim>\<open>minimize\<close> at its first evaluation, at the
  seed. Returns the final rows and the rows other than the coordinating atom's.\<close>

definition orient ::
  "'f arith \<Rightarrow> 'f scipy \<Rightarrow> 'f vec3 list \<Rightarrow> 'f \<Rightarrow> 'f vec3 list list \<Rightarrow> 'f vec3 list \<Rightarrow> nat
     \<Rightarrow> 'f vec3 \<Rightarrow> 'f call list \<times> ('f vec3 list \<times> 'f vec3 list) result" where
  "orient ar lib ligand_positions bond_distance previous_metal_positions metal_positions
     coordinating_atom_index optimal_position =
     (if length metal_positions \<le> coordinating_atom_index then ([], Raise IndexError)
      else
        (case rotation_objective_function ar ligand_positions previous_metal_positions
                (translated_positions ar metal_positions coordinating_atom_index
                   optimal_position)
                coordinating_atom_index optimal_position
                (f_zero ar, f_zero ar, f_zero ar) of
           Raise e \<Rightarrow> ([Minimize_rotation (f_zero ar, f_zero ar, f_zero ar)], Raise e)
         | Ok v \<Rightarrow>
            (let final_positions =
                   optimized_positions ar lib ligand_positions previous_metal_positions
                     metal_positions coordinating_atom_index optimal_position;
                 metal_atoms_positions = delete_row coordinating_atom_index final_positions
             in case min_distances ar ligand_positions previous_metal_positions
                       metal_atoms_positions of
                  Raise e \<Rightarrow> ([Minimize_rotation (f_zero ar, f_zero ar, f_zero ar)], Raise e)
                | Ok dists \<Rightarrow>
                   if (\<exists>d \<in> set dists. f_lt ar d bond_distance)
                   then ([Minimize_rotation (f_zero ar, f_zero ar, f_zero ar)],
                         Raise StericHindrance)
                   else ([Minimize_rotation (f_zero ar, f_zero ar, f_zero ar)],
                         Ok (final_positions, metal_atoms_positions)))))"

subsection \<open>ASE objects in a store\<close>

text \<open>
  An \<^verbatim>\<open>Atoms\<close> object holds its atoms in order, each a species label and a position.
  A reference is an index into the store. \<^verbatim>\<open>copy\<close> allocates a new object,
  \<^verbatim>\<open>get_positions\<close> returns a fresh array (a value), \<^verbatim>\<open>set_positions\<close> and
  \<^verbatim>\<open>+=\<close> update the object they are called on.
\<close>

type_synonym 'f atoms = "(string \<times> 'f vec3) list"
type_synonym 'f heap = "'f atoms list"

definition atoms_copy :: "'f heap \<Rightarrow> nat \<Rightarrow> 'f heap \<times> nat" where
  "atoms_copy h a = (h @ [h ! a], length h)"

definition get_positions :: "'f heap \<Rightarrow> nat \<Rightarrow> 'f vec3 list" where
  "get_positions h a = map snd (h ! a)"

text \<open>\<^verbatim>\<open>set_positions\<close> is called with as many rows as the object has atoms.\<close>

definition set_positions :: "'f heap \<Rightarrow> nat \<Rightarrow> 'f vec3 list \<Rightarrow> 'f heap" where
  "set_positions h a rows = h[a := zip (map fst (h ! a)) rows]"

text \<open>\<^verbatim>\<open>a += b\<close> (\<^verbatim>\<open>Atoms.extend\<close>): the atoms of b are appended to a.\<close>

definition atoms_extend :: "'f heap \<Rightarrow> nat \<Rightarrow> nat \<Rightarrow> 'f heap" where
  "atoms_extend h a b = h[a := h ! a @ h ! b]"

subsection \<open>The loop over the bonding sites (lines 31-184)\<close>

record 'f docking_state =
  heap :: "'f heap"
  previous_metal_positions :: "'f vec3 list list"
  calls :: "'f call list"

text \<open>One iteration, lines 37-182.\<close>

definition site_step ::
  "'f arith \<Rightarrow> 'f scipy \<Rightarrow> nat \<Rightarrow> nat \<Rightarrow> 'f \<Rightarrow> 'f vec3 list \<Rightarrow> nat \<Rightarrow> int list
     \<Rightarrow> 'f docking_state \<Rightarrow> 'f docking_state \<times> unit result" where
  "site_step ar lib ligand metal_center bond_distance ligand_positions combined_structure
     site_indices st =
     (case solve_position ar lib ligand_positions (length (heap st ! ligand)) site_indices
             bond_distance of
        (calls1, Raise e) \<Rightarrow> (st\<lparr>calls := calls st @ calls1\<rparr>, Raise e)
      | (calls1, Ok optimal_position) \<Rightarrow>
         (let st1 = st\<lparr>calls := calls st @ calls1\<rparr>;
              metal_positions = get_positions (heap st1) metal_center
          in case coordinating_atom lib metal_positions of
               Raise e \<Rightarrow> (st1, Raise e)
             | Ok coordinating_atom_index \<Rightarrow>
                (case atoms_copy (heap st1) metal_center of
                   (h2, metal_center_copy) \<Rightarrow>
                    (case orient ar lib ligand_positions bond_distance
                            (previous_metal_positions st1)
                            (get_positions h2 metal_center_copy)
                            coordinating_atom_index optimal_position of
                       (calls2, Raise e) \<Rightarrow>
                         (st1\<lparr>heap := h2, calls := calls st1 @ calls2\<rparr>, Raise e)
                     | (calls2, Ok (final_positions, metal_atoms_positions)) \<Rightarrow>
                         (let h3 = set_positions h2 metal_center_copy final_positions;
                              h4 = atoms_extend h3 combined_structure metal_center_copy
                          in (st1\<lparr>heap := h4,
                                  previous_metal_positions :=
                                    previous_metal_positions st1 @ [metal_atoms_positions],
                                  calls := calls st1 @ calls2\<rparr>,
                              Ok ()))))))"

fun docking_loop ::
  "'f arith \<Rightarrow> 'f scipy \<Rightarrow> nat \<Rightarrow> nat \<Rightarrow> 'f \<Rightarrow> 'f vec3 list \<Rightarrow> nat \<Rightarrow> int list list
     \<Rightarrow> 'f docking_state \<Rightarrow> 'f docking_state \<times> unit result" where
  "docking_loop ar lib ligand metal_center bond_distance ligand_positions combined_structure
     [] st = (st, Ok ())"
| "docking_loop ar lib ligand metal_center bond_distance ligand_positions combined_structure
     (site_indices # rest) st =
     (case site_step ar lib ligand metal_center bond_distance ligand_positions
             combined_structure site_indices st of
        (st', Ok u) \<Rightarrow>
          docking_loop ar lib ligand metal_center bond_distance ligand_positions
            combined_structure rest st'
      | (st', Raise e) \<Rightarrow> (st', Raise e))"

text \<open>The function: the store before the call and the references of its two
  \<^verbatim>\<open>Atoms\<close> arguments go in, the state at the end (store and logged calls) and the
  reference of the returned structure, or the exception, come out.\<close>

definition ligand_metal_docking ::
  "'f arith \<Rightarrow> 'f scipy \<Rightarrow> 'f heap \<Rightarrow> nat \<Rightarrow> nat \<Rightarrow> int list list \<Rightarrow> 'f
     \<Rightarrow> 'f docking_state \<times> nat result" where
  "ligand_metal_docking ar lib h ligand metal_center bonding_sites bond_distance =
     (case atoms_copy h ligand of
        (h1, combined_structure) \<Rightarrow>
         (let ligand_positions = get_positions h1 ligand;
              st0 = \<lparr>heap = h1, previous_metal_positions = [], calls = []\<rparr>
          in case docking_loop ar lib ligand metal_center bond_distance ligand_positions
                    combined_structure bonding_sites st0 of
               (st, Ok u) \<Rightarrow> (st, Ok combined_structure)
             | (st, Raise e) \<Rightarrow> (st, Raise e)))"

subsection \<open>The iteration as a function of the arrays it reads\<close>

text \<open>Lines 38-177 for one site, without the store: \<open>ligand_positions\<close> and
  \<open>metal_positions\<close> are the rows of the ligand and of the template. The loop above
  computes exactly this at every site (lemmas \<open>site_step_outcome\<close> and
  \<open>site_step_Ok\<close>).\<close>

definition site_placement ::
  "'f arith \<Rightarrow> 'f scipy \<Rightarrow> 'f vec3 list \<Rightarrow> 'f vec3 list \<Rightarrow> 'f \<Rightarrow> 'f vec3 list list \<Rightarrow> int list
     \<Rightarrow> 'f call list \<times> ('f vec3 list \<times> 'f vec3 list) result" where
  "site_placement ar lib ligand_positions metal_positions bond_distance prev site_indices =
     (case solve_position ar lib ligand_positions (length ligand_positions) site_indices
             bond_distance of
        (calls1, Raise e) \<Rightarrow> (calls1, Raise e)
      | (calls1, Ok optimal_position) \<Rightarrow>
         (case coordinating_atom lib metal_positions of
            Raise e \<Rightarrow> (calls1, Raise e)
          | Ok c \<Rightarrow>
             (case orient ar lib ligand_positions bond_distance prev metal_positions c
                     optimal_position of
                (calls2, r) \<Rightarrow> (calls1 @ calls2, r))))"

text \<open>The placements of a list of sites in order: for each site the final rows of its
  cluster instance and the rows recorded for the later sites (line 182).\<close>

fun placements ::
  "'f arith \<Rightarrow> 'f scipy \<Rightarrow> 'f vec3 list \<Rightarrow> 'f vec3 list \<Rightarrow> 'f \<Rightarrow> 'f vec3 list list
     \<Rightarrow> int list list \<Rightarrow> ('f vec3 list \<times> 'f vec3 list) list result" where
  "placements ar lib ligand_positions metal_positions bond_distance prev [] = Ok []"
| "placements ar lib ligand_positions metal_positions bond_distance prev
     (site_indices # rest) =
     (case snd (site_placement ar lib ligand_positions metal_positions bond_distance prev
                  site_indices) of
        Raise e \<Rightarrow> Raise e
      | Ok p \<Rightarrow>
         (case placements ar lib ligand_positions metal_positions bond_distance
                 (prev @ [snd p]) rest of
            Ok ps \<Rightarrow> Ok (p # ps)
          | Raise e \<Rightarrow> Raise e))"

subsection \<open>Notions of the specification\<close>



text \<open>The outcome without its value.\<close>

definition result_unit :: "'a result \<Rightarrow> unit result" where
  "result_unit r = (case r of Ok x \<Rightarrow> Ok () | Raise e \<Rightarrow> Raise e)"

subsection \<open>An instance of the arithmetic\<close>

text \<open>
  The values of float64 with its special values: a finite number, the two infinities
  and NaN. Operations follow IEEE 754 on the special values (NaN propagates,
  \<^verbatim>\<open>0.0 / 0\<close> and \<^verbatim>\<open>inf - inf\<close> are NaN, a comparison with NaN is false,
  \<^verbatim>\<open>np.minimum\<close> returns NaN when an argument is NaN) and overflow to infinity.
  Finite results are not rounded, zero has no sign and there is no underflow: this
  instance computes what float64 computes on inputs for which every finite intermediate
  result is a float64 number, which is the case in the runs evaluated below (small
  integers and powers of two; square roots occur in comparisons only, far from the
  threshold, or are exact).
\<close>

datatype xfloat = Fin real | PInf | MInf | NaN

definition overflow :: "real \<Rightarrow> xfloat" where
  "overflow r = (if 2 ^ 1024 \<le> r then PInf else if r \<le> - (2 ^ 1024) then MInf else Fin r)"

fun xneg :: "xfloat \<Rightarrow> xfloat" where
  "xneg (Fin a) = Fin (- a)"
| "xneg PInf = MInf"
| "xneg MInf = PInf"
| "xneg NaN = NaN"

fun xadd :: "xfloat \<Rightarrow> xfloat \<Rightarrow> xfloat" where
  "xadd (Fin a) (Fin b) = overflow (a + b)"
| "xadd NaN _ = NaN"
| "xadd _ NaN = NaN"
| "xadd PInf MInf = NaN"
| "xadd MInf PInf = NaN"
| "xadd PInf _ = PInf"
| "xadd _ PInf = PInf"
| "xadd MInf _ = MInf"
| "xadd _ MInf = MInf"

definition xsub :: "xfloat \<Rightarrow> xfloat \<Rightarrow> xfloat" where
  "xsub a b = xadd a (xneg b)"

fun xmul :: "xfloat \<Rightarrow> xfloat \<Rightarrow> xfloat" where
  "xmul (Fin a) (Fin b) = overflow (a * b)"
| "xmul NaN _ = NaN"
| "xmul _ NaN = NaN"
| "xmul (Fin a) PInf = (if a = 0 then NaN else if 0 < a then PInf else MInf)"
| "xmul (Fin a) MInf = (if a = 0 then NaN else if 0 < a then MInf else PInf)"
| "xmul PInf (Fin b) = (if b = 0 then NaN else if 0 < b then PInf else MInf)"
| "xmul MInf (Fin b) = (if b = 0 then NaN else if 0 < b then MInf else PInf)"
| "xmul PInf PInf = PInf"
| "xmul PInf MInf = MInf"
| "xmul MInf PInf = MInf"
| "xmul MInf MInf = PInf"

fun xdiv :: "xfloat \<Rightarrow> xfloat \<Rightarrow> xfloat" where
  "xdiv (Fin a) (Fin b) =
     (if b = 0 then (if a = 0 then NaN else if 0 < a then PInf else MInf)
      else overflow (a / b))"
| "xdiv NaN _ = NaN"
| "xdiv _ NaN = NaN"
| "xdiv (Fin a) PInf = Fin 0"
| "xdiv (Fin a) MInf = Fin 0"
| "xdiv PInf (Fin b) = (if 0 \<le> b then PInf else MInf)"
| "xdiv MInf (Fin b) = (if 0 \<le> b then MInf else PInf)"
| "xdiv PInf PInf = NaN"
| "xdiv PInf MInf = NaN"
| "xdiv MInf PInf = NaN"
| "xdiv MInf MInf = NaN"

fun xsqrt :: "xfloat \<Rightarrow> xfloat" where
  "xsqrt (Fin a) = (if a < 0 then NaN else Fin (sqrt a))"
| "xsqrt PInf = PInf"
| "xsqrt MInf = NaN"
| "xsqrt NaN = NaN"

fun xcos :: "xfloat \<Rightarrow> xfloat" where
  "xcos (Fin a) = Fin (cos a)"
| "xcos PInf = NaN"
| "xcos MInf = NaN"
| "xcos NaN = NaN"

fun xsin :: "xfloat \<Rightarrow> xfloat" where
  "xsin (Fin a) = Fin (sin a)"
| "xsin PInf = NaN"
| "xsin MInf = NaN"
| "xsin NaN = NaN"

fun xlt :: "xfloat \<Rightarrow> xfloat \<Rightarrow> bool" where
  "xlt (Fin a) (Fin b) = (a < b)"
| "xlt NaN _ = False"
| "xlt _ NaN = False"
| "xlt PInf _ = False"
| "xlt MInf MInf = False"
| "xlt MInf _ = True"
| "xlt (Fin a) PInf = True"
| "xlt (Fin a) MInf = False"

definition xmin :: "xfloat \<Rightarrow> xfloat \<Rightarrow> xfloat" where
  "xmin a b = (if a = NaN \<or> b = NaN then NaN else if xlt b a then b else a)"

definition ieee_exact :: "xfloat arith" where
  "ieee_exact =
     \<lparr>f_zero = Fin 0, f_one = Fin 1, f_tiny = Fin (1 / 10 ^ 10),
      f_count = (\<lambda>n. Fin (real n)),
      f_add = xadd, f_sub = xsub, f_mul = xmul, f_div = xdiv, f_neg = xneg,
      f_sqrt = xsqrt, f_cos = xcos, f_sin = xsin, f_lt = xlt, f_min = xmin\<rparr>"

text \<open>
  A second instance: exact arithmetic on the real numbers, which float64 approximates.
  It is used to say what the formulas of the placement compute when nothing is rounded.
\<close>

definition real_arith :: "real arith" where
  "real_arith =
     \<lparr>f_zero = 0, f_one = 1, f_tiny = 1 / 10 ^ 10, f_count = real,
      f_add = (+), f_sub = (-), f_mul = (*), f_div = (/), f_neg = uminus,
      f_sqrt = sqrt, f_cos = cos, f_sin = sin, f_lt = (<), f_min = min\<rparr>"

subsection \<open>Concrete inputs\<close>

text \<open>
  A library instance for the runs below. \<^verbatim>\<open>ConvexHull\<close> raises ValueError when
  given no points and QhullError when given fewer than four, and otherwise returns
  the six triangles of a square pyramid with apex 0 and base 1, 3, 2, 4 (the hull of
  the template below, the only template of four or more atoms it is applied to). The
  optimizer stops at its seed, as a gradient method does at a stationary point.

  The cluster template is a square pyramid: atom 0 at the apex, four atoms in the
  plane z = 5, symmetric about the axis. The ligands have their atoms on the z axis.
  With one-atom sites the seed of the position solver is its exact minimiser, and by
  symmetry the zero rotation is a stationary point of the rotation objective.
\<close>

definition seed_lib :: "'f scipy" where
  "seed_lib =
     \<lparr>hull_simplices = (\<lambda>points. if points = [] then Inl ''ValueError''
                          else if length points < 4 then Inl ''QhullError''
                          else Inr [[0, 1, 3], [0, 3, 2], [0, 2, 4], [0, 4, 1],
                                    [1, 3, 2], [1, 2, 4]]),
      minimize1 = (\<lambda>f x0. x0),
      minimize3 = (\<lambda>f x0. x0)\<rparr>"

definition ex_ligand :: "xfloat atoms" where
  "ex_ligand = [(''N'', (Fin 0, Fin 0, Fin 0)), (''C'', (Fin 0, Fin 0, Fin (- 1)))]"

definition ex_ligand3 :: "xfloat atoms" where
  "ex_ligand3 = [(''N'', (Fin 0, Fin 0, Fin 0)), (''C'', (Fin 0, Fin 0, Fin (- 9))),
                 (''C'', (Fin 0, Fin 0, Fin 7))]"

definition ex_cluster :: "xfloat atoms" where
  "ex_cluster = [(''Zn'', (Fin 0, Fin 0, Fin 0)), (''O'', (Fin 1, Fin 0, Fin 5)),
                 (''O'', (Fin (- 1), Fin 0, Fin 5)), (''O'', (Fin 0, Fin 1, Fin 5)),
                 (''O'', (Fin 0, Fin (- 1), Fin 5))]"

definition ex_flat :: "xfloat atoms" where
  "ex_flat = [(''Zn'', (Fin 0, Fin 0, Fin 0)), (''O'', (Fin 1, Fin 0, Fin 0)),
              (''O'', (Fin 0, Fin 1, Fin 0))]"

definition ex_heap :: "xfloat heap" where
  "ex_heap = [ex_ligand, ex_cluster]"

definition ex_heap3 :: "xfloat heap" where
  "ex_heap3 = [ex_ligand3, ex_cluster]"

definition ex_heap_flat :: "xfloat heap" where
  "ex_heap_flat = [ex_ligand, ex_flat]"

definition real_ligand_positions :: "real vec3 list" where
  "real_ligand_positions = [(0, 0, 0), (0, 0, - 1)]"

definition real_cluster_positions :: "real vec3 list" where
  "real_cluster_positions = [(0, 0, 0), (1, 0, 5), (- 1, 0, 5), (0, 1, 5), (0, - 1, 5)]"

section \<open>The placement in exact arithmetic\<close>

lemma real_arith_fields:
  "f_zero real_arith = 0" "f_one real_arith = 1"
  "f_tiny real_arith = 1 / 10 ^ 10" "f_count real_arith = real"
  "f_add real_arith = (+)" "f_sub real_arith = (-)" "f_mul real_arith = (*)"
  "f_div real_arith = (/)" "f_neg real_arith = uminus" "f_sqrt real_arith = sqrt"
  "f_cos real_arith = cos" "f_sin real_arith = sin" "f_lt real_arith = (<)"
  "f_min real_arith = min"
  by (simp_all add: real_arith_def)

lemma row_dot_matmul:
  "row_dot real_arith v (transpose3 (matmul real_arith A B))
     = row_dot real_arith (row_dot real_arith v (transpose3 B)) (transpose3 A)"
  by (cases v; cases A rule: prod_cases3; cases B rule: prod_cases3)
     (auto simp: row_dot_def matmul_def real_arith_fields algebra_simps split: prod.splits)

lemma sq_rot:
  fixes a b t :: real
  shows "(a * cos t - b * sin t) * (a * cos t - b * sin t)
       + (a * sin t + b * cos t) * (a * sin t + b * cos t) = a * a + b * b"
proof -
  have one: "sin t * sin t + cos t * cos t = 1"
    using sin_cos_squared_add [of t] by (simp add: power2_eq_square)
  have "(a * cos t - b * sin t) * (a * cos t - b * sin t)
       + (a * sin t + b * cos t) * (a * sin t + b * cos t)
     = (a * a + b * b) * (sin t * sin t + cos t * cos t)"
    by (simp only: algebra_simps)
  then show ?thesis by (simp only: one mult_1_right)
qed

lemma norm3_Rx:
  "norm3 real_arith (row_dot real_arith v (transpose3 (Rx real_arith t))) = norm3 real_arith v"
proof (cases v)
  case (fields x y z)
  show ?thesis using fields sq_rot [of y t z]
    by (simp add: Rx_def row_dot_def real_arith_fields)
qed

lemma norm3_Ry:
  "norm3 real_arith (row_dot real_arith v (transpose3 (Ry real_arith t))) = norm3 real_arith v"
proof (cases v)
  case (fields x y z)
  have "(x * cos t + z * sin t) * (x * cos t + z * sin t) +
        (z * cos t - x * sin t) * (z * cos t - x * sin t) = x * x + z * z"
    using sq_rot [of z t x] by (simp only: add.commute)
  then show ?thesis using fields
    by (simp add: Ry_def row_dot_def real_arith_fields)
qed

lemma norm3_Rz:
  "norm3 real_arith (row_dot real_arith v (transpose3 (Rz real_arith t))) = norm3 real_arith v"
proof (cases v)
  case (fields x y z)
  show ?thesis using fields sq_rot [of x t y]
    by (simp add: Rz_def row_dot_def real_arith_fields)
qed

lemma norm3_rotation:
  "norm3 real_arith (row_dot real_arith v (transpose3 (rotation_matrix real_arith a)))
     = norm3 real_arith v"
  by (cases a) (simp add: row_dot_matmul norm3_Rx norm3_Ry norm3_Rz)

lemma row_dot_vsub:
  "row_dot real_arith (vsub real_arith u v) M
     = vsub real_arith (row_dot real_arith u M) (row_dot real_arith v M)"
  by (cases u; cases v; cases M rule: prod_cases3)
     (auto simp: row_dot_def real_arith_fields algebra_simps split: prod.splits)

lemma row_dot_zero: "row_dot real_arith (0, 0, 0) M = (0, 0, 0)"
  by (cases M rule: prod_cases3) (auto simp: row_dot_def real_arith_fields split: prod.splits)

lemma vsub_vadd_cancel:
  "vsub real_arith (vadd real_arith u w) (vadd real_arith v w) = vsub real_arith u v"
  by (cases u; cases v; cases w) (simp add: real_arith_fields)

lemma vsub_vsub_cancel:
  "vsub real_arith (vsub real_arith u w) (vsub real_arith v w) = vsub real_arith u v"
  by (cases u; cases v; cases w) (simp add: real_arith_fields)

lemma vadd_vsub_cancel: "vadd real_arith p (vsub real_arith q p) = q"
  by (cases p; cases q) (simp add: real_arith_fields)

lemma vsub_self: "vsub real_arith p p = (0, 0, 0)"
  by (cases p) (simp add: real_arith_fields)

lemma vadd_zero_left: "vadd real_arith (0, 0, 0) p = p"
  by (cases p) (simp add: real_arith_fields)

lemma translated_coordinating:
  "c < length mp \<Longrightarrow> translated_positions real_arith mp c opt ! c = opt"
  by (simp add: translated_positions_def vadd_vsub_cancel)

lemma rotated_fixed:
  "c < length ps \<Longrightarrow> ps ! c = opt \<Longrightarrow> rotated_positions real_arith ps opt a ! c = opt"
  by (simp add: rotated_positions_def vsub_self row_dot_zero vadd_zero_left)

lemma rotated_distance:
  "i < length ps \<Longrightarrow> j < length ps \<Longrightarrow>
   norm3 real_arith (vsub real_arith (rotated_positions real_arith ps opt a ! i)
                                     (rotated_positions real_arith ps opt a ! j))
     = norm3 real_arith (vsub real_arith (ps ! i) (ps ! j))"
  by (simp add: rotated_positions_def vsub_vadd_cancel row_dot_vsub [symmetric]
        norm3_rotation vsub_vsub_cancel)

lemma translated_distance:
  "i < length ps \<Longrightarrow> j < length ps \<Longrightarrow>
   vsub real_arith (translated_positions real_arith ps c opt ! i)
                   (translated_positions real_arith ps c opt ! j)
     = vsub real_arith (ps ! i) (ps ! j)"
  by (simp add: translated_positions_def vsub_vadd_cancel)

section \<open>One site, the loop and the store\<close>

lemma length_rotated [simp]: "length (rotated_positions ar ps opt a) = length ps"
  by (simp add: rotated_positions_def)

lemma length_translated [simp]: "length (translated_positions ar ps c opt) = length ps"
  by (simp add: translated_positions_def)

lemma length_optimized [simp]:
  "length (optimized_positions ar lib lp prev mp c opt) = length mp"
  by (simp add: optimized_positions_def Let_def)

lemma length_delete_row: "c < length rows \<Longrightarrow> length (delete_row c rows) = length rows - 1"
  by (simp add: delete_row_def)

lemma orient_Ok:
  assumes "orient ar lib lp bd prev mp c optimal = (cl, Ok (final, others))"
  shows "c < length mp \<and> cl = [Minimize_rotation (f_zero ar, f_zero ar, f_zero ar)] \<and>
         final = optimized_positions ar lib lp prev mp c optimal \<and>
         others = delete_row c final \<and>
         (\<exists>ds. min_distances ar lp prev others = Ok ds \<and> (\<forall>d \<in> set ds. \<not> f_lt ar d bd))"
  using assms
  by (auto simp: orient_def Let_def split: if_splits result.splits)

lemma solve_position_calls:
  assumes "solve_position ar lib lp n site bd = (cl, Ok optimal)"
  shows "cl = [Minimize_position bd]"
  using assms
  by (auto simp: solve_position_def Let_def split: result.splits prod.splits)

lemma site_placement_Ok:
  assumes "site_placement ar lib lp mp bd prev site = (cl, Ok (final, others))"
  shows "\<exists>opt c. solve_position ar lib lp (length lp) site bd = ([Minimize_position bd], Ok opt) \<and>
           coordinating_atom lib mp = Ok c \<and> c < length mp \<and>
           cl = [Minimize_position bd, Minimize_rotation (f_zero ar, f_zero ar, f_zero ar)] \<and>
           final = optimized_positions ar lib lp prev mp c opt \<and>
           others = delete_row c final \<and>
           (\<exists>ds. min_distances ar lp prev others = Ok ds \<and> (\<forall>d \<in> set ds. \<not> f_lt ar d bd))"
proof -
  obtain c1 optimal where sp: "solve_position ar lib lp (length lp) site bd = (c1, Ok optimal)"
    using assms by (auto simp: site_placement_def split: prod.splits result.splits)
  then have c1: "c1 = [Minimize_position bd]" by (rule solve_position_calls)
  obtain c where co: "coordinating_atom lib mp = Ok c"
    using assms sp by (auto simp: site_placement_def split: prod.splits result.splits)
  obtain c2 where orr: "orient ar lib lp bd prev mp c optimal = (c2, Ok (final, others))"
      and cl: "cl = c1 @ c2"
    using assms sp co by (auto simp: site_placement_def split: prod.splits result.splits)
  from orient_Ok [OF orr] sp co c1 cl show ?thesis by auto
qed

lemma site_step_frame:
  assumes "site_step ar lib lig met bd lp cs site st = (st', r)"
  shows "length (heap st) \<le> length (heap st') \<and>
         (\<forall>a < length (heap st). a \<noteq> cs \<longrightarrow> heap st' ! a = heap st ! a)"
  using assms
  by (auto simp: site_step_def Let_def atoms_copy_def set_positions_def atoms_extend_def
        nth_append nth_list_update
      split: prod.splits result.splits)

lemma site_step_outcome:
  assumes "met < length (heap st)" "length (heap st ! lig) = length lp"
  shows "snd (site_step ar lib lig met bd lp cs site st)
           = result_unit (snd (site_placement ar lib lp (get_positions (heap st) met) bd
                                 (previous_metal_positions st) site)) \<and>
         calls (fst (site_step ar lib lig met bd lp cs site st))
           = calls st @ fst (site_placement ar lib lp (get_positions (heap st) met) bd
                                 (previous_metal_positions st) site)"
  using assms
  by (auto simp: site_step_def site_placement_def result_unit_def Let_def atoms_copy_def
        get_positions_def nth_append
      split: prod.splits result.splits)

lemma site_step_Ok:
  assumes "site_step ar lib lig met bd lp cs site st = (st', Ok u)"
    and "met < length (heap st)" "cs < length (heap st)" "length (heap st ! lig) = length lp"
  shows "\<exists>cl final others.
           site_placement ar lib lp (get_positions (heap st) met) bd
             (previous_metal_positions st) site = (cl, Ok (final, others)) \<and>
           heap st' = (heap st @ [zip (map fst (heap st ! met)) final])
                        [cs := heap st ! cs @ zip (map fst (heap st ! met)) final] \<and>
           previous_metal_positions st' = previous_metal_positions st @ [others] \<and>
           calls st' = calls st @ cl"
  using assms
  by (auto simp: site_step_def site_placement_def Let_def atoms_copy_def
        get_positions_def set_positions_def atoms_extend_def nth_append list_update_append
      split: prod.splits result.splits)


lemma docking_loop_frame:
  assumes "docking_loop ar lib lig met bd lp cs sites st = (st', r)"
  shows "length (heap st) \<le> length (heap st') \<and>
         (\<forall>a < length (heap st). a \<noteq> cs \<longrightarrow> heap st' ! a = heap st ! a)"
  using assms
proof (induction sites arbitrary: st)
  case Nil
  then show ?case by simp
next
  case (Cons site rest)
  obtain st1 r1 where step: "site_step ar lib lig met bd lp cs site st = (st1, r1)"
    by (cases "site_step ar lib lig met bd lp cs site st")
  note fr = site_step_frame [OF step]
  show ?case
  proof (cases r1)
    case (Ok u)
    with Cons.prems step
    have "docking_loop ar lib lig met bd lp cs rest st1 = (st', r)" by simp
    from Cons.IH [OF this] fr show ?thesis by auto
  next
    case (Raise e)
    with Cons.prems step have "st' = st1" by simp
    with fr show ?thesis by simp
  qed
qed

lemma docking_loop_placements:
  assumes "docking_loop ar lib lig met bd lp cs sites st = (st', r)"
    and "lig < length (heap st)" "met < length (heap st)" "cs < length (heap st)"
    and "lig \<noteq> cs" "met \<noteq> cs" "length (heap st ! lig) = length lp"
  shows "r = result_unit (placements ar lib lp (get_positions (heap st) met) bd
                            (previous_metal_positions st) sites) \<and>
         (\<forall>ps. placements ar lib lp (get_positions (heap st) met) bd
                 (previous_metal_positions st) sites = Ok ps \<longrightarrow>
               heap st' ! cs = heap st ! cs
                 @ concat (map (\<lambda>p. zip (map fst (heap st ! met)) (fst p)) ps) \<and>
               previous_metal_positions st' = previous_metal_positions st @ map snd ps \<and>
               calls st' = calls st
                 @ concat (map (\<lambda>s. [Minimize_position bd, Minimize_rotation (f_zero ar, f_zero ar, f_zero ar)]) sites))"
  using assms
proof (induction sites arbitrary: st)
  case Nil
  then show ?case by (simp add: result_unit_def)
next
  case (Cons site rest)
  let ?mp = "get_positions (heap st) met"
  let ?prev = "previous_metal_positions st"
  obtain st1 r1 where step: "site_step ar lib lig met bd lp cs site st = (st1, r1)"
    by (cases "site_step ar lib lig met bd lp cs site st")
  have out: "r1 = result_unit (snd (site_placement ar lib lp ?mp bd ?prev site))"
    using site_step_outcome [OF Cons.prems(3) Cons.prems(7), of ar lib bd cs site] step by simp
  show ?case
  proof (cases r1)
    case (Ok u)
    from site_step_Ok [OF step [unfolded Ok] Cons.prems(3,4,7)]
    obtain cl final others where
      pl: "site_placement ar lib lp ?mp bd ?prev site = (cl, Ok (final, others))"
      and h1: "heap st1 = (heap st @ [zip (map fst (heap st ! met)) final])
                        [cs := heap st ! cs @ zip (map fst (heap st ! met)) final]"
      and p1: "previous_metal_positions st1 = ?prev @ [others]"
      and c1: "calls st1 = calls st @ cl"
      by blast
    from site_placement_Ok [OF pl]
    have cl: "cl = [Minimize_position bd, Minimize_rotation (f_zero ar, f_zero ar, f_zero ar)]" by blast
    have rest: "docking_loop ar lib lig met bd lp cs rest st1 = (st', r)"
      using Cons.prems(1) step Ok by simp
    have len1: "length (heap st1) = Suc (length (heap st))" using h1 by simp
    have lig1: "heap st1 ! lig = heap st ! lig"
      using h1 Cons.prems(2,5) by (simp add: nth_append)
    have met1: "heap st1 ! met = heap st ! met"
      using h1 Cons.prems(3,6) by (simp add: nth_append)
    have cs1: "heap st1 ! cs = heap st ! cs @ zip (map fst (heap st ! met)) final"
      using h1 Cons.prems(4) by simp
    have mp1: "get_positions (heap st1) met = ?mp"
      using met1 by (simp add: get_positions_def)
    have ih: "r = result_unit (placements ar lib lp ?mp bd (?prev @ [others]) rest) \<and>
         (\<forall>ps. placements ar lib lp ?mp bd (?prev @ [others]) rest = Ok ps \<longrightarrow>
               heap st' ! cs = heap st1 ! cs
                 @ concat (map (\<lambda>p. zip (map fst (heap st ! met)) (fst p)) ps) \<and>
               previous_metal_positions st' = (?prev @ [others]) @ map snd ps \<and>
               calls st' = calls st1
                 @ concat (map (\<lambda>s. [Minimize_position bd, Minimize_rotation (f_zero ar, f_zero ar, f_zero ar)]) rest))"
      using Cons.IH [OF rest] Cons.prems(2-7) len1 lig1 met1 mp1 p1 by simp
    show ?thesis
      using ih pl cs1 c1 cl
      by (auto simp: result_unit_def split: result.splits)
  next
    case (Raise e)
    with Cons.prems(1) step have "r = Raise e" by simp
    with out Raise show ?thesis
      by (auto simp: result_unit_def split: result.splits)
  qed
qed


lemma docking_placements:
  assumes "lig < length h" "met < length h"
    and "ligand_metal_docking ar lib h lig met sites bd = (st, r)"
  shows "r = (case placements ar lib (get_positions h lig) (get_positions h met) bd [] sites of
                Ok ps \<Rightarrow> Ok (length h) | Raise e \<Rightarrow> Raise e) \<and>
         (\<forall>ps. placements ar lib (get_positions h lig) (get_positions h met) bd [] sites = Ok ps \<longrightarrow>
               heap st ! length h = h ! lig
                 @ concat (map (\<lambda>p. zip (map fst (h ! met)) (fst p)) ps) \<and>
               previous_metal_positions st = map snd ps \<and>
               calls st =
                 concat (map (\<lambda>s. [Minimize_position bd, Minimize_rotation (f_zero ar, f_zero ar, f_zero ar)]) sites))"
proof -
  let ?st0 = "\<lparr>heap = h @ [h ! lig], previous_metal_positions = [], calls = []\<rparr>"
  let ?lp = "get_positions h lig"
  obtain r0 where loop: "docking_loop ar lib lig met bd ?lp (length h) sites ?st0 = (st, r0)"
    and r: "r = (case r0 of Ok u \<Rightarrow> Ok (length h) | Raise e \<Rightarrow> Raise e)"
    using assms(3) assms(1)
    by (auto simp: ligand_metal_docking_def atoms_copy_def Let_def get_positions_def nth_append
          split: prod.splits result.splits)
  have "length (heap ?st0 ! lig) = length ?lp"
    using assms(1) by (simp add: get_positions_def nth_append)
  from docking_loop_placements [OF loop _ _ _ _ _ this] assms(1,2)
  show ?thesis
    using r by (auto simp: get_positions_def nth_append result_unit_def split: result.splits)
qed

lemma docking_frame:
  "take (length h) (heap (fst (ligand_metal_docking ar lib h lig met sites bd))) = h"
proof -
  let ?st0 = "\<lparr>heap = h @ [h ! lig], previous_metal_positions = [], calls = []\<rparr>"
  obtain st r0 where loop:
    "docking_loop ar lib lig met bd (get_positions (h @ [h ! lig]) lig) (length h) sites ?st0 = (st, r0)"
    by (cases "docking_loop ar lib lig met bd (get_positions (h @ [h ! lig]) lig) (length h) sites ?st0")
  then have st: "fst (ligand_metal_docking ar lib h lig met sites bd) = st"
    by (auto simp: ligand_metal_docking_def atoms_copy_def Let_def split: result.splits)
  from docking_loop_frame [OF loop]
  have len: "length h < length (heap st)"
    and same: "\<forall>a < length h. heap st ! a = h ! a"
    by (auto simp: nth_append)
  show ?thesis
    unfolding st using len same by (auto intro: nth_equalityI)
qed

lemma placements_length:
  "placements ar lib lp mp bd prev sites = Ok ps \<Longrightarrow> length ps = length sites"
  by (induction sites arbitrary: prev ps) (auto split: result.splits)

lemma placements_append:
  "placements ar lib lp mp bd prev (xs @ ys) =
     (case placements ar lib lp mp bd prev xs of
        Ok ps \<Rightarrow> (case placements ar lib lp mp bd (prev @ map snd ps) ys of
                     Ok qs \<Rightarrow> Ok (ps @ qs) | Raise e \<Rightarrow> Raise e)
      | Raise e \<Rightarrow> Raise e
     )"
  by (induction xs arbitrary: prev) (auto split: result.splits)

lemma placements_take:
  assumes "placements ar lib lp mp bd prev sites = Ok ps"
  shows "placements ar lib lp mp bd prev (take k sites) = Ok (take k ps)"
proof -
  have "placements ar lib lp mp bd prev (take k sites @ drop k sites) = Ok ps"
    using assms by simp
  then obtain qs rs where q: "placements ar lib lp mp bd prev (take k sites) = Ok qs"
    and "ps = qs @ rs"
    unfolding placements_append by (auto split: result.splits)
  moreover have "length qs = length (take k sites)" using q by (rule placements_length)
  moreover have "length ps = length sites" using assms by (rule placements_length)
  ultimately have "take k ps = qs" by (cases "k \<le> length sites") auto
  with q show ?thesis by simp
qed

lemma placements_nth:
  assumes "placements ar lib lp mp bd prev sites = Ok ps" and "k < length sites"
  shows "snd (site_placement ar lib lp mp bd (prev @ map snd (take k ps)) (sites ! k)) = Ok (ps ! k)"
proof -
  have len: "length ps = length sites" using assms(1) by (rule placements_length)
  have "placements ar lib lp mp bd prev (take k sites @ (sites ! k # drop (Suc k) sites)) = Ok ps"
    using assms by (simp add: Cons_nth_drop_Suc)
  moreover have "placements ar lib lp mp bd prev (take k sites) = Ok (take k ps)"
    using assms(1) by (rule placements_take)
  ultimately have "\<exists>p qs.
    snd (site_placement ar lib lp mp bd (prev @ map snd (take k ps)) (sites ! k)) = Ok p \<and>
    take k ps @ p # qs = ps"
    unfolding placements_append by (auto split: result.splits)
  then obtain p qs where
    "snd (site_placement ar lib lp mp bd (prev @ map snd (take k ps)) (sites ! k)) = Ok p"
    and "take k ps @ p # qs = ps"
    by blast
  moreover have "length (take k ps) = k" using len assms(2) by simp
  ultimately show ?thesis by (metis nth_append_length)
qed


section \<open>Selection and direction lemmas\<close>

lemma sort_remdups_hd:
  assumes "sort (remdups xs) = y # ys"
  shows "y = Min (set xs)"
proof -
  have s: "sorted (y # ys)" using assms by (metis sorted_sort)
  have e: "set (y # ys) = set xs" using assms by (metis set_remdups set_sort)
  have "y \<in> set xs" using e by auto
  moreover have "\<forall>x \<in> set xs. y \<le> x" using s e by auto
  ultimately show ?thesis using Min_eqI [of "set xs" y] by auto
qed

lemma first_unique_index_Min:
  "concat simplices \<noteq> [] \<Longrightarrow>
   first_unique_index simplices = Some (Min (set (concat simplices)))"
proof -
  assume ne: "concat simplices \<noteq> []"
  then have "sort (remdups (concat simplices)) \<noteq> []"
    by (metis set_remdups set_sort set_empty)
  then obtain y ys where y: "sort (remdups (concat simplices)) = y # ys"
    by (cases "sort (remdups (concat simplices))") auto
  from sort_remdups_hd [OF y] y show ?thesis
    by (simp add: first_unique_index_def np_unique_def)
qed

lemma take_rows_nat:
  "\<forall>i \<in> set is. i < length rows \<Longrightarrow> take_rows rows (map int is) = Some (map (\<lambda>i. rows ! i) is)"
  by (auto simp: take_rows_def Let_def)


lemma direction_vector_value:
  "direction_vector ar lp (length lp) site c =
     Ok (if filter (\<lambda>i. int i \<notin> set site) [0..<length lp] = []
         then (f_zero ar, f_zero ar, f_one ar)
         else if f_lt ar
                   (norm3 ar (vsub ar c
                      (np_mean ar (map (\<lambda>i. lp ! i)
                                     (filter (\<lambda>i. int i \<notin> set site) [0..<length lp])))))
                   (f_tiny ar)
              then (f_zero ar, f_zero ar, f_one ar)
              else vdiv ar
                     (vsub ar c
                        (np_mean ar (map (\<lambda>i. lp ! i)
                                       (filter (\<lambda>i. int i \<notin> set site) [0..<length lp]))))
                     (norm3 ar (vsub ar c
                        (np_mean ar (map (\<lambda>i. lp ! i)
                                       (filter (\<lambda>i. int i \<notin> set site) [0..<length lp]))))))"
proof -
  let ?ns = "filter (\<lambda>i. int i \<notin> set site) [0..<length lp]"
  have "\<forall>i \<in> set ?ns. i < length lp" by simp
  then have rows: "take_rows lp (map int ?ns) = Some (map (\<lambda>i. lp ! i) ?ns)"
    by (rule take_rows_nat)
  show ?thesis
    unfolding direction_vector_def Let_def rows by simp
qed

lemma optimized_positions_rotated:
  "\<exists>angles. optimized_positions ar lib lp prev mp c opt
             = rotated_positions ar (translated_positions ar mp c opt) opt angles"
  unfolding optimized_positions_def Let_def by blast

section \<open>Outcomes of the whole call\<close>

lemma docking_Ok_placements:
  assumes "ligand < length h" "metal_center < length h"
    and "snd (ligand_metal_docking ar lib h ligand metal_center sites bd) = Ok cs"
  shows "cs = length h \<and>
         (\<exists>ps. placements ar lib (get_positions h ligand) (get_positions h metal_center) bd []
                  sites = Ok ps \<and>
               heap (fst (ligand_metal_docking ar lib h ligand metal_center sites bd)) ! cs
                 = h ! ligand @ concat (map (\<lambda>p. zip (map fst (h ! metal_center)) (fst p)) ps) \<and>
               calls (fst (ligand_metal_docking ar lib h ligand metal_center sites bd)) =
                 concat (map (\<lambda>s. [Minimize_position bd, Minimize_rotation (f_zero ar, f_zero ar, f_zero ar)]) sites))"
proof -
  obtain st r where d: "ligand_metal_docking ar lib h ligand metal_center sites bd = (st, r)"
    by (cases "ligand_metal_docking ar lib h ligand metal_center sites bd")
  with assms(3) have r: "r = Ok cs" by simp
  from docking_placements [OF assms(1,2) d] r show ?thesis
    unfolding d by (auto split: result.splits)
qed


lemma concat_blocks_length:
  "\<forall>b \<in> set blocks. length b = m \<Longrightarrow> length (concat blocks) = length blocks * m"
  by (induction blocks) auto

lemma concat_blocks_nth:
  "\<forall>b \<in> set blocks. length b = m \<Longrightarrow> k < length blocks \<Longrightarrow>
   take m (drop (k * m) (concat blocks)) = blocks ! k"
proof (induction blocks arbitrary: k)
  case Nil
  then show ?case by simp
next
  case (Cons b blocks)
  show ?case
  proof (cases k)
    case 0
    with Cons.prems show ?thesis by simp
  next
    case (Suc j)
    with Cons.prems have "take m (drop (j * m) (concat blocks)) = blocks ! j"
      by (intro Cons.IH) auto
    with Suc Cons.prems show ?thesis by simp
  qed
qed

lemma placements_facts:
  assumes "placements ar lib lp mp bd prev sites = Ok ps" and "k < length sites"
  shows "\<exists>c. snd (site_placement ar lib lp mp bd (prev @ map snd (take k ps)) (sites ! k))
               = Ok (ps ! k) \<and>
             coordinating_atom lib mp = Ok c \<and> c < length mp \<and>
             length (fst (ps ! k)) = length mp \<and>
             snd (ps ! k) = delete_row c (fst (ps ! k)) \<and>
             (\<exists>ds. min_distances ar lp (prev @ map snd (take k ps)) (snd (ps ! k)) = Ok ds \<and>
                   (\<forall>d \<in> set ds. \<not> f_lt ar d bd))"
proof -
  let ?prev = "prev @ map snd (take k ps)"
  have n: "snd (site_placement ar lib lp mp bd ?prev (sites ! k)) = Ok (ps ! k)"
    using assms by (rule placements_nth)
  obtain cl where "site_placement ar lib lp mp bd ?prev (sites ! k)
                     = (cl, Ok (fst (ps ! k), snd (ps ! k)))"
    using n by (cases "site_placement ar lib lp mp bd ?prev (sites ! k)") simp
  from site_placement_Ok [OF this] n show ?thesis by auto
qed



lemma min_distances_cases:
  "min_distances ar lp prev atoms =
     (if lp = [] \<or> (prev \<noteq> [] \<and> concat prev = []) then Raise ZeroSizeReduction
      else Ok (if prev = []
               then map (\<lambda>m. np_min ar (map (\<lambda>l. norm3 ar (vsub ar m l)) lp)) atoms
               else map2 (f_min ar)
                      (map (\<lambda>m. np_min ar (map (\<lambda>l. norm3 ar (vsub ar m l)) lp)) atoms)
                      (map (\<lambda>m. np_min ar (map (\<lambda>q. norm3 ar (vsub ar m q)) (concat prev)))
                           atoms)))"
  by (simp add: min_distances_def Let_def del: concat_eq_Nil_conv)

lemma min_distances_shape:
  "(\<exists>ds. min_distances ar lp prev atoms = Ok ds) \<longleftrightarrow>
   (\<exists>ds. min_distances ar lp prev atoms' = Ok ds)"
  unfolding min_distances_cases by simp

lemma min_distances_length:
  "min_distances ar lp prev atoms = Ok ds \<Longrightarrow> length ds = length atoms"
  unfolding min_distances_cases by (auto split: if_splits)






lemma placements_recorded_lengths:
  assumes "placements ar lib lp mp bd [] sites = Ok ps"
  shows "\<forall>q \<in> set (map snd ps). length q = length mp - 1"
proof
  fix q assume "q \<in> set (map snd ps)"
  then obtain k where k: "k < length ps" and q: "q = snd (ps ! k)"
    by (auto simp: in_set_conv_nth)
  have "k < length sites" using k placements_length [OF assms] by simp
  from placements_facts [OF assms this] obtain c where
    "c < length mp" "length (fst (ps ! k)) = length mp" "snd (ps ! k) = delete_row c (fst (ps ! k))"
    by blast
  then show "length q = length mp - 1"
    using q by (simp add: length_delete_row)
qed






lemma map_snd_concat_zip:
  assumes "\<forall>p \<in> set ps. length (fst p) = length species"
  shows "map snd (concat (map (\<lambda>p. zip species (fst p)) ps)) = concat (map fst ps)"
  using assms by (induction ps) (auto simp: map_concat)

lemma solve_position_in_range:
  assumes "\<forall>i \<in> set site. - int (length lp) \<le> i \<and> i < int (length lp)"
  shows "\<exists>optimal. solve_position ar lib lp (length lp) site bd
                     = ([Minimize_position bd], Ok optimal)"
proof -
  obtain sp where sp: "take_rows lp site = Some sp"
    using assms by (auto simp: take_rows_def Let_def)
  obtain d where "direction_vector ar lp (length lp) site (np_mean ar sp) = Ok d"
    using direction_vector_value [of ar lp site "np_mean ar sp"] by blast
  with sp show ?thesis
    by (simp add: solve_position_def site_geometry_def Let_def del: split_paired_Ex)
qed

lemma solve_position_out_of_range:
  assumes "\<not> (\<forall>i \<in> set site. - int (length lp) \<le> i \<and> i < int (length lp))"
  shows "solve_position ar lib lp n site bd = ([], Raise IndexError)"
  using assms
  by (auto simp: solve_position_def site_geometry_def take_rows_def Let_def)

lemma first_site_index_error:
  assumes "ligand < length h"
    and "\<not> (\<forall>i \<in> set site. - int (length (h ! ligand)) \<le> i \<and> i < int (length (h ! ligand)))"
  shows "ligand_metal_docking ar lib h ligand metal_center (site # rest) bd =
           (\<lparr>heap = h @ [h ! ligand], previous_metal_positions = [], calls = []\<rparr>,
            Raise IndexError)"
proof -
  let ?lp = "get_positions h ligand"
  have "\<not> (\<forall>i \<in> set site. - int (length ?lp) \<le> i \<and> i < int (length ?lp))"
    using assms(2) by (simp add: get_positions_def)
  then have sp: "solve_position ar lib ?lp n site bd = ([], Raise IndexError)" for n
    by (rule solve_position_out_of_range)
  have lp: "get_positions (h @ [h ! ligand]) ligand = ?lp"
    using assms(1) by (simp add: get_positions_def nth_append)
  show ?thesis
    by (simp add: ligand_metal_docking_def atoms_copy_def Let_def site_step_def lp sp)
qed

lemma first_site_selection_raises:
  assumes "ligand < length h" "metal_center < length h"
    and "coordinating_atom lib (get_positions h metal_center) = Raise e"
    and "\<forall>i \<in> set site. - int (length (h ! ligand)) \<le> i \<and> i < int (length (h ! ligand))"
  shows "ligand_metal_docking ar lib h ligand metal_center (site # rest) bd =
           (\<lparr>heap = h @ [h ! ligand], previous_metal_positions = [],
             calls = [Minimize_position bd]\<rparr>, Raise e)"
proof -
  let ?lp = "get_positions h ligand"
  have "\<forall>i \<in> set site. - int (length ?lp) \<le> i \<and> i < int (length ?lp)"
    using assms(4) by (simp add: get_positions_def)
  from solve_position_in_range [OF this] obtain optimal where
    sp: "solve_position ar lib ?lp (length ?lp) site bd = ([Minimize_position bd], Ok optimal)"
    by blast
  have lp: "get_positions (h @ [h ! ligand]) ligand = ?lp"
    and n: "length ((h @ [h ! ligand]) ! ligand) = length ?lp"
    and mp: "get_positions (h @ [h ! ligand]) metal_center = get_positions h metal_center"
    using assms(1,2) by (simp_all add: get_positions_def nth_append)
  show ?thesis
    by (simp add: ligand_metal_docking_def atoms_copy_def Let_def site_step_def lp n mp sp
          assms(3))
qed





section \<open>The concrete runs, evaluated\<close>

lemma overflow_Fin: "\<bar>r\<bar> \<le> 1000000 \<Longrightarrow> overflow r = Fin r"
proof -
  assume a: "\<bar>r\<bar> \<le> 1000000"
  have "(1000000::real) < 2 ^ 1024" by simp
  with a have "r < 2 ^ 1024" "- (2 ^ 1024) < r" by linarith+
  then show ?thesis by (simp add: overflow_def)
qed

lemma sqrt_less_numeral: "0 \<le> b \<Longrightarrow> sqrt a < b \<longleftrightarrow> a < b * b"
proof -
  assume b: "0 \<le> b"
  have "sqrt a < sqrt (b * b) \<longleftrightarrow> a < b * b" by (rule real_sqrt_less_iff)
  moreover have "sqrt (b * b) = b" using b by simp
  ultimately show ?thesis by simp
qed

lemma ieee_exact_fields:
  "f_zero ieee_exact = Fin 0" "f_one ieee_exact = Fin 1"
  "f_tiny ieee_exact = Fin (1 / 10 ^ 10)" "f_count ieee_exact = (\<lambda>n. Fin (real n))"
  "f_add ieee_exact = xadd" "f_sub ieee_exact = xsub" "f_mul ieee_exact = xmul"
  "f_div ieee_exact = xdiv" "f_neg ieee_exact = xneg" "f_sqrt ieee_exact = xsqrt"
  "f_cos ieee_exact = xcos" "f_sin ieee_exact = xsin" "f_lt ieee_exact = xlt"
  "f_min ieee_exact = xmin"
  by (simp_all add: ieee_exact_def)

lemma xmin_simps:
  "xmin (Fin a) (Fin b) = Fin (min a b)" "xmin NaN x = NaN" "xmin x NaN = NaN"
  by (auto simp: xmin_def)

lemmas ieee_simps =
  ieee_exact_fields xsub_def xmin_simps overflow_Fin sqrt_less_numeral min_less_iff_disj

lemma rotation_matrix_zero:
  "rotation_matrix ieee_exact (Fin 0, Fin 0, Fin 0)
     = ((Fin 1, Fin 0, Fin 0), (Fin 0, Fin 1, Fin 0), (Fin 0, Fin 0, Fin 1))"
  by (simp add: Rx_def Ry_def Rz_def matmul_def ieee_simps)

lemma ex_coordinating: "coordinating_atom seed_lib (map snd ex_cluster) = Ok 0"
  by (simp add: coordinating_atom_def seed_lib_def first_unique_index_def np_unique_def
        ex_cluster_def)

lemma seed_lib_minimize3: "minimize3 seed_lib = (\<lambda>f x0. x0)"
  by (simp add: seed_lib_def)

lemma ex_solve_0:
  "solve_position ieee_exact seed_lib (map snd ex_ligand) (length (map snd ex_ligand)) [0] (Fin 2)
     = ([Minimize_position (Fin 2)], Ok (Fin 0, Fin 0, Fin 2))"
  by (simp add: solve_position_def site_geometry_def take_rows_def np_mean_def
      direction_vector_def ex_ligand_def seed_lib_def Let_def ieee_simps)

lemma ex_solve_1:
  "solve_position ieee_exact seed_lib (map snd ex_ligand) (length (map snd ex_ligand)) [1] (Fin 2)
     = ([Minimize_position (Fin 2)], Ok (Fin 0, Fin 0, Fin (- 3)))"
  by (simp add: solve_position_def site_geometry_def take_rows_def np_mean_def
      direction_vector_def ex_ligand_def seed_lib_def Let_def ieee_simps)

lemmas site_eval =
  orient_def optimized_positions_def seed_lib_minimize3
  rotation_objective_function_def rotated_positions_def rotation_matrix_zero
  translated_positions_def row_dot_def
  min_distances_def delete_row_def Let_def ieee_simps

lemma ex_site_0:
  "site_placement ieee_exact seed_lib (map snd ex_ligand) (map snd ex_cluster) (Fin 2) [] [0] =
     ([Minimize_position (Fin 2), Minimize_rotation (Fin 0, Fin 0, Fin 0)],
      Ok ([(Fin 0, Fin 0, Fin 2), (Fin 1, Fin 0, Fin 7), (Fin (- 1), Fin 0, Fin 7),
           (Fin 0, Fin 1, Fin 7), (Fin 0, Fin (- 1), Fin 7)],
          [(Fin 1, Fin 0, Fin 7), (Fin (- 1), Fin 0, Fin 7),
           (Fin 0, Fin 1, Fin 7), (Fin 0, Fin (- 1), Fin 7)]))"
  unfolding site_placement_def ex_solve_0 ex_coordinating
  by (simp add: site_eval ex_ligand_def ex_cluster_def del: rotation_matrix.simps)

lemma ex_site_1:
  "site_placement ieee_exact seed_lib (map snd ex_ligand) (map snd ex_cluster) (Fin 2)
     [[(Fin 1, Fin 0, Fin 7), (Fin (- 1), Fin 0, Fin 7),
       (Fin 0, Fin 1, Fin 7), (Fin 0, Fin (- 1), Fin 7)]] [1] =
     ([Minimize_position (Fin 2), Minimize_rotation (Fin 0, Fin 0, Fin 0)],
      Ok ([(Fin 0, Fin 0, Fin (- 3)), (Fin 1, Fin 0, Fin 2), (Fin (- 1), Fin 0, Fin 2),
           (Fin 0, Fin 1, Fin 2), (Fin 0, Fin (- 1), Fin 2)],
          [(Fin 1, Fin 0, Fin 2), (Fin (- 1), Fin 0, Fin 2),
           (Fin 0, Fin 1, Fin 2), (Fin 0, Fin (- 1), Fin 2)]))"
  unfolding site_placement_def ex_solve_1 ex_coordinating
  by (simp add: site_eval ex_ligand_def ex_cluster_def del: rotation_matrix.simps)

lemma ex3_solve_0:
  "solve_position ieee_exact seed_lib (map snd ex_ligand3) (length (map snd ex_ligand3)) [0] (Fin 2)
     = ([Minimize_position (Fin 2)], Ok (Fin 0, Fin 0, Fin 2))"
  by (simp add: solve_position_def site_geometry_def take_rows_def np_mean_def
      direction_vector_def ex_ligand3_def seed_lib_def Let_def ieee_simps)

lemma ex3_solve_empty:
  "solve_position ieee_exact seed_lib (map snd ex_ligand3) (length (map snd ex_ligand3)) [] (Fin 2)
     = ([Minimize_position (Fin 2)], Ok (NaN, NaN, NaN))"
  by (simp add: solve_position_def site_geometry_def take_rows_def np_mean_def
      direction_vector_def ex_ligand3_def seed_lib_def Let_def ieee_simps)


lemma ex3_site_empty:
  "site_placement ieee_exact seed_lib (map snd ex_ligand3) (map snd ex_cluster) (Fin 2) [] [] =
     ([Minimize_position (Fin 2), Minimize_rotation (Fin 0, Fin 0, Fin 0)],
      Ok ([(NaN, NaN, NaN), (NaN, NaN, NaN), (NaN, NaN, NaN), (NaN, NaN, NaN), (NaN, NaN, NaN)],
          [(NaN, NaN, NaN), (NaN, NaN, NaN), (NaN, NaN, NaN), (NaN, NaN, NaN)]))"
  unfolding site_placement_def ex3_solve_empty ex_coordinating
  by (simp add: site_eval ex_ligand3_def ex_cluster_def del: rotation_matrix.simps)

lemma ex3_site_0_after_empty:
  "site_placement ieee_exact seed_lib (map snd ex_ligand3) (map snd ex_cluster) (Fin 2)
     [[(NaN, NaN, NaN), (NaN, NaN, NaN), (NaN, NaN, NaN), (NaN, NaN, NaN)]] [0] =
     ([Minimize_position (Fin 2), Minimize_rotation (Fin 0, Fin 0, Fin 0)],
      Ok ([(Fin 0, Fin 0, Fin 2), (Fin 1, Fin 0, Fin 7), (Fin (- 1), Fin 0, Fin 7),
           (Fin 0, Fin 1, Fin 7), (Fin 0, Fin (- 1), Fin 7)],
          [(Fin 1, Fin 0, Fin 7), (Fin (- 1), Fin 0, Fin 7),
           (Fin 0, Fin 1, Fin 7), (Fin 0, Fin (- 1), Fin 7)]))"
  unfolding site_placement_def ex3_solve_0 ex_coordinating
  by (simp add: site_eval ex_ligand3_def ex_cluster_def del: rotation_matrix.simps)

lemma ex_placements:
  "placements ieee_exact seed_lib (map snd ex_ligand) (map snd ex_cluster) (Fin 2) []
     [[0], [1]] =
     Ok [([(Fin 0, Fin 0, Fin 2), (Fin 1, Fin 0, Fin 7), (Fin (- 1), Fin 0, Fin 7),
           (Fin 0, Fin 1, Fin 7), (Fin 0, Fin (- 1), Fin 7)],
          [(Fin 1, Fin 0, Fin 7), (Fin (- 1), Fin 0, Fin 7),
           (Fin 0, Fin 1, Fin 7), (Fin 0, Fin (- 1), Fin 7)]),
         ([(Fin 0, Fin 0, Fin (- 3)), (Fin 1, Fin 0, Fin 2), (Fin (- 1), Fin 0, Fin 2),
           (Fin 0, Fin 1, Fin 2), (Fin 0, Fin (- 1), Fin 2)],
          [(Fin 1, Fin 0, Fin 2), (Fin (- 1), Fin 0, Fin 2),
           (Fin 0, Fin 1, Fin 2), (Fin 0, Fin (- 1), Fin 2)])]"
  by (simp add: ex_site_0 ex_site_1)

lemma ex3_placements:
  "placements ieee_exact seed_lib (map snd ex_ligand3) (map snd ex_cluster) (Fin 2) []
     [[], [0]] =
     Ok [([(NaN, NaN, NaN), (NaN, NaN, NaN), (NaN, NaN, NaN), (NaN, NaN, NaN),
           (NaN, NaN, NaN)],
          [(NaN, NaN, NaN), (NaN, NaN, NaN), (NaN, NaN, NaN), (NaN, NaN, NaN)]),
         ([(Fin 0, Fin 0, Fin 2), (Fin 1, Fin 0, Fin 7), (Fin (- 1), Fin 0, Fin 7),
           (Fin 0, Fin 1, Fin 7), (Fin 0, Fin (- 1), Fin 7)],
          [(Fin 1, Fin 0, Fin 7), (Fin (- 1), Fin 0, Fin 7),
           (Fin 0, Fin 1, Fin 7), (Fin 0, Fin (- 1), Fin 7)])]"
  by (simp add: ex3_site_empty ex3_site_0_after_empty)

lemma ex_heap_simps:
  "length ex_heap = 2" "ex_heap ! 0 = ex_ligand" "ex_heap ! 1 = ex_cluster"
  "get_positions ex_heap 0 = map snd ex_ligand"
  "get_positions ex_heap 1 = map snd ex_cluster"
  "ex_heap ! Suc 0 = ex_cluster"
  "get_positions ex_heap (Suc 0) = map snd ex_cluster"
  by (simp_all add: ex_heap_def get_positions_def)

lemma ex_heap3_simps:
  "length ex_heap3 = 2" "ex_heap3 ! 0 = ex_ligand3" "ex_heap3 ! 1 = ex_cluster"
  "get_positions ex_heap3 0 = map snd ex_ligand3"
  "get_positions ex_heap3 1 = map snd ex_cluster"
  "ex_heap3 ! Suc 0 = ex_cluster"
  "get_positions ex_heap3 (Suc 0) = map snd ex_cluster"
  by (simp_all add: ex_heap3_def get_positions_def)

lemma ex_run:
  "snd (ligand_metal_docking ieee_exact seed_lib ex_heap 0 1 [[0], [1]] (Fin 2)) = Ok 2 \<and>
   heap (fst (ligand_metal_docking ieee_exact seed_lib ex_heap 0 1 [[0], [1]] (Fin 2))) ! 2 =
     ex_ligand @
     [(''Zn'', (Fin 0, Fin 0, Fin 2)), (''O'', (Fin 1, Fin 0, Fin 7)),
      (''O'', (Fin (- 1), Fin 0, Fin 7)), (''O'', (Fin 0, Fin 1, Fin 7)),
      (''O'', (Fin 0, Fin (- 1), Fin 7)),
      (''Zn'', (Fin 0, Fin 0, Fin (- 3))), (''O'', (Fin 1, Fin 0, Fin 2)),
      (''O'', (Fin (- 1), Fin 0, Fin 2)), (''O'', (Fin 0, Fin 1, Fin 2)),
      (''O'', (Fin 0, Fin (- 1), Fin 2))]"
proof -
  obtain st r where
    d: "ligand_metal_docking ieee_exact seed_lib ex_heap 0 1 [[0], [1]] (Fin 2) = (st, r)"
    by (cases "ligand_metal_docking ieee_exact seed_lib ex_heap 0 1 [[0], [1]] (Fin 2)")
  have "(0::nat) < length ex_heap" "(1::nat) < length ex_heap"
    by (simp_all add: ex_heap_simps)
  from docking_placements [OF this d, unfolded ex_heap_simps ex_placements]
  show ?thesis unfolding d
    by (simp add: ex_cluster_def)
qed

lemma ex3_run:
  "snd (ligand_metal_docking ieee_exact seed_lib ex_heap3 0 1 [[], [0]] (Fin 2)) = Ok 2 \<and>
   heap (fst (ligand_metal_docking ieee_exact seed_lib ex_heap3 0 1 [[], [0]] (Fin 2))) ! 2 =
     ex_ligand3 @
     [(''Zn'', (NaN, NaN, NaN)), (''O'', (NaN, NaN, NaN)), (''O'', (NaN, NaN, NaN)),
      (''O'', (NaN, NaN, NaN)), (''O'', (NaN, NaN, NaN)),
      (''Zn'', (Fin 0, Fin 0, Fin 2)), (''O'', (Fin 1, Fin 0, Fin 7)),
      (''O'', (Fin (- 1), Fin 0, Fin 7)), (''O'', (Fin 0, Fin 1, Fin 7)),
      (''O'', (Fin 0, Fin (- 1), Fin 7))] \<and>
   calls (fst (ligand_metal_docking ieee_exact seed_lib ex_heap3 0 1 [[], [0]] (Fin 2))) =
     [Minimize_position (Fin 2), Minimize_rotation (Fin 0, Fin 0, Fin 0),
      Minimize_position (Fin 2), Minimize_rotation (Fin 0, Fin 0, Fin 0)]"
proof -
  obtain st r where
    d: "ligand_metal_docking ieee_exact seed_lib ex_heap3 0 1 [[], [0]] (Fin 2) = (st, r)"
    by (cases "ligand_metal_docking ieee_exact seed_lib ex_heap3 0 1 [[], [0]] (Fin 2)")
  have "(0::nat) < length ex_heap3" "(1::nat) < length ex_heap3"
    by (simp_all add: ex_heap3_simps)
  from docking_placements [OF this d, unfolded ex_heap3_simps ex3_placements]
  show ?thesis unfolding d
    by (simp add: ex_cluster_def ieee_exact_fields)
qed

lemma real_rotation_matrix_zero:
  "rotation_matrix real_arith (0, 0, 0) = ((1, 0, 0), (0, 1, 0), (0, 0, 1))"
  by (simp add: Rx_def Ry_def Rz_def matmul_def real_arith_fields)

lemma real_site_0:
  "site_placement real_arith seed_lib real_ligand_positions real_cluster_positions 2 [] [0] =
     ([Minimize_position 2, Minimize_rotation (0, 0, 0)],
      Ok ([(0, 0, 2), (1, 0, 7), (- 1, 0, 7), (0, 1, 7), (0, - 1, 7)],
          [(1, 0, 7), (- 1, 0, 7), (0, 1, 7), (0, - 1, 7)]))"
proof -
  have sp: "solve_position real_arith seed_lib real_ligand_positions
              (length real_ligand_positions) [0] 2
              = ([Minimize_position 2], Ok (0, 0, 2))"
    by (simp add: solve_position_def site_geometry_def take_rows_def np_mean_def
        direction_vector_def real_ligand_positions_def seed_lib_def Let_def real_arith_fields)
  have co: "coordinating_atom seed_lib real_cluster_positions = Ok 0"
    by (simp add: coordinating_atom_def seed_lib_def first_unique_index_def np_unique_def
        real_cluster_positions_def)
  show ?thesis
    unfolding site_placement_def sp co
    by (simp add: orient_def optimized_positions_def seed_lib_minimize3
        rotation_objective_function_def rotated_positions_def real_rotation_matrix_zero
        translated_positions_def row_dot_def min_distances_def delete_row_def Let_def
        real_arith_fields sqrt_less_numeral min_less_iff_disj
        real_ligand_positions_def real_cluster_positions_def
        del: rotation_matrix.simps)
qed

section \<open>The claims\<close>

text \<open>
  C8. \<^verbatim>\<open>ligand_metal_docking\<close> never mutates its inputs. Whatever the call does
  (it returns or raises), every object of the store that existed before the call, the
  ligand and the cluster template among them, is in the final store as it was: all
  the work is done on objects allocated by the call.
\<close>

theorem inputs_never_mutated:
  "take (length h)
     (heap (fst (ligand_metal_docking ar lib h ligand metal_center bonding_sites
                   bond_distance)))
   = h"
  by (rule docking_frame)

theorem inputs_never_mutated_witness:
  "take (length ex_heap3)
     (heap (fst (ligand_metal_docking ieee_exact seed_lib ex_heap3 0 1 [[], [0]] (Fin 2))))
   = [ex_ligand3, ex_cluster]"
  using inputs_never_mutated [of ex_heap3 ieee_exact seed_lib 0 1 "[[], [0]]" "Fin 2"]
  by (simp only: ex_heap3_def)

text \<open>
  C5. With an empty list of bonding sites the call raises nothing and returns a
  structure that equals the ligand atom for atom (species and positions, in order);
  the returned object is a new one, not the ligand object, which is unchanged.
\<close>

theorem no_sites_returns_copy:
  assumes "ligand < length h"
  shows "snd (ligand_metal_docking ar lib h ligand metal_center [] bond_distance)
           = Ok (length h) \<and>
         length h \<noteq> ligand \<and>
         heap (fst (ligand_metal_docking ar lib h ligand metal_center [] bond_distance))
           ! length h = h ! ligand \<and>
         heap (fst (ligand_metal_docking ar lib h ligand metal_center [] bond_distance))
           ! ligand = h ! ligand"
  using assms
  by (simp add: ligand_metal_docking_def atoms_copy_def Let_def nth_append)

theorem no_sites_returns_copy_witness:
  "(0::nat) < length ex_heap \<and>
   snd (ligand_metal_docking ieee_exact seed_lib ex_heap 0 1 [] (Fin 2)) = Ok 2 \<and>
   heap (fst (ligand_metal_docking ieee_exact seed_lib ex_heap 0 1 [] (Fin 2))) ! 2
     = ex_ligand"
proof -
  have h: "(0::nat) < length ex_heap" by (simp add: ex_heap_simps)
  from no_sites_returns_copy [OF h, of ieee_exact seed_lib 1 "Fin 2"] h
  show ?thesis by (simp add: ex_heap_simps)
qed

text \<open>
  C3. The coordinating atom is the smallest index among the indices that occur in a
  facet of the convex hull of the template's positions. The template is read again at
  every site; whatever sites have been processed before, the selection reads the same
  positions and returns the same index.
\<close>

theorem coordinating_atom_is_smallest_hull_index:
  assumes "hull_simplices lib (get_positions h metal_center) = Inr simplices"
    and "concat simplices \<noteq> []"
    and "metal_center < length h"
  shows "first_unique_index simplices = Some (Min (set (concat simplices))) \<and>
         coordinating_atom lib (get_positions h metal_center)
           = Ok (Min (set (concat simplices))) \<and>
         coordinating_atom lib
           (get_positions
              (heap (fst (ligand_metal_docking ar lib h ligand metal_center bonding_sites
                            bond_distance)))
              metal_center)
           = Ok (Min (set (concat simplices)))"
proof -
  let ?h' = "heap (fst (ligand_metal_docking ar lib h ligand metal_center bonding_sites
                          bond_distance))"
  have f: "first_unique_index simplices = Some (Min (set (concat simplices)))"
    using assms(2) by (rule first_unique_index_Min)
  then have c: "coordinating_atom lib (get_positions h metal_center)
                  = Ok (Min (set (concat simplices)))"
    using assms(1) by (simp add: coordinating_atom_def)
  have "take (length h) ?h' ! metal_center = h ! metal_center"
    by (simp only: docking_frame)
  then have "?h' ! metal_center = h ! metal_center"
    using assms(3) by simp
  then have "get_positions ?h' metal_center = get_positions h metal_center"
    by (simp add: get_positions_def)
  with f c show ?thesis by simp
qed

theorem coordinating_atom_is_smallest_hull_index_witness:
  "coordinating_atom seed_lib (get_positions ex_heap 1) = Ok 0 \<and>
   coordinating_atom seed_lib
     (get_positions
        (heap (fst (ligand_metal_docking ieee_exact seed_lib ex_heap 0 1 [[0], [1]] (Fin 2))))
        1)
     = Ok 0"
proof -
  have a: "hull_simplices seed_lib (get_positions ex_heap 1)
             = Inr [[0, 1, 3], [0, 3, 2], [0, 2, 4], [0, 4, 1], [1, 3, 2], [1, 2, 4]]"
    by (simp add: ex_heap_simps seed_lib_def ex_cluster_def)
  have b: "concat [[0, 1, 3], [0, 3, 2], [0, 2, 4], [0, 4, 1], [1, 3, 2], [1, 2, 4::nat]] \<noteq> []"
    by simp
  have c: "(1::nat) < length ex_heap" by (simp add: ex_heap_simps)
  from coordinating_atom_is_smallest_hull_index
         [OF a b c, of ieee_exact 0 "[[0], [1]]" "Fin 2"]
  show ?thesis by simp
qed

text \<open>
  C9. On success the returned structure is the ligand's atoms followed by one cluster
  instance per bonding site, in the order of the sites: it has
  len(ligand) + (number of sites) * len(template) atoms, and the block of len(template)
  atoms starting at len(ligand) + k * len(template) holds the template's species with
  the final positions of the instance placed for site k (the placement of site k given
  the instances of the sites before it). Success is any call that returns, the calls
  that go through an empty site with NaN positions included.
\<close>

theorem combined_structure_layout:
  assumes "ligand < length h" "metal_center < length h"
    and "snd (ligand_metal_docking ar lib h ligand metal_center sites bd) = Ok cs"
  shows "\<exists>ps. placements ar lib (get_positions h ligand) (get_positions h metal_center) bd []
                 sites = Ok ps \<and>
           length ps = length sites \<and>
           heap (fst (ligand_metal_docking ar lib h ligand metal_center sites bd)) ! cs
             = h ! ligand @ concat (map (\<lambda>p. zip (map fst (h ! metal_center)) (fst p)) ps) \<and>
           length (heap (fst (ligand_metal_docking ar lib h ligand metal_center sites bd)) ! cs)
             = length (h ! ligand) + length sites * length (h ! metal_center) \<and>
           (\<forall>k < length sites.
              take (length (h ! metal_center))
                (drop (length (h ! ligand) + k * length (h ! metal_center))
                   (heap (fst (ligand_metal_docking ar lib h ligand metal_center sites bd))
                      ! cs))
                = zip (map fst (h ! metal_center)) (fst (ps ! k)) \<and>
              length (fst (ps ! k)) = length (h ! metal_center) \<and>
              snd (site_placement ar lib (get_positions h ligand)
                     (get_positions h metal_center) bd (map snd (take k ps)) (sites ! k))
                = Ok (ps ! k))"
proof -
  let ?D = "ligand_metal_docking ar lib h ligand metal_center sites bd"
  let ?lp = "get_positions h ligand" and ?mp = "get_positions h metal_center"
  let ?M = "length (h ! metal_center)"
  let ?blocks = "\<lambda>ps. map (\<lambda>p. zip (map fst (h ! metal_center)) (fst p)) ps"
  from docking_Ok_placements [OF assms] obtain ps where
    ps: "placements ar lib ?lp ?mp bd [] sites = Ok ps"
    and hp: "heap (fst ?D) ! cs = h ! ligand @ concat (?blocks ps)"
    by blast
  have len: "length ps = length sites" using ps by (rule placements_length)
  have M: "length ?mp = ?M" by (simp add: get_positions_def)
  have each: "length (fst (ps ! k)) = ?M \<and>
              snd (site_placement ar lib ?lp ?mp bd (map snd (take k ps)) (sites ! k))
                = Ok (ps ! k)"
    if "k < length sites" for k
    using placements_facts [OF ps that] M by auto
  have bl: "\<forall>b \<in> set (?blocks ps). length b = ?M"
  proof
    fix b assume "b \<in> set (?blocks ps)"
    then obtain k where "k < length ps" "b = zip (map fst (h ! metal_center)) (fst (ps ! k))"
      by (auto simp: in_set_conv_nth)
    with each len show "length b = ?M" by simp
  qed
  have total: "length (heap (fst ?D) ! cs) = length (h ! ligand) + length sites * ?M"
    using hp concat_blocks_length [OF bl] len by simp
  have block: "take ?M (drop (length (h ! ligand) + k * ?M) (heap (fst ?D) ! cs))
                 = zip (map fst (h ! metal_center)) (fst (ps ! k))"
    if "k < length sites" for k
  proof -
    have "take ?M (drop (k * ?M) (concat (?blocks ps))) = ?blocks ps ! k"
      using bl that len by (intro concat_blocks_nth) auto
    then show ?thesis using hp that len by simp
  qed
  show ?thesis
    using ps len hp total block each by blast
qed

theorem combined_structure_layout_witness:
  "snd (ligand_metal_docking ieee_exact seed_lib ex_heap3 0 1 [[], [0]] (Fin 2)) = Ok 2 \<and>
   length (heap (fst (ligand_metal_docking ieee_exact seed_lib ex_heap3 0 1 [[], [0]] (Fin 2)))
             ! 2)
     = length (ex_heap3 ! 0) + length [[], [0::int]] * length (ex_heap3 ! 1) \<and>
   length (heap (fst (ligand_metal_docking ieee_exact seed_lib ex_heap3 0 1 [[], [0]] (Fin 2)))
             ! 2) = 13"
proof -
  have a: "(0::nat) < length ex_heap3" "(1::nat) < length ex_heap3"
    by (simp_all add: ex_heap3_simps)
  have b: "snd (ligand_metal_docking ieee_exact seed_lib ex_heap3 0 1 [[], [0]] (Fin 2)) = Ok 2"
    using ex3_run by simp
  from combined_structure_layout [OF a b]
  have "length (heap (fst (ligand_metal_docking ieee_exact seed_lib ex_heap3 0 1 [[], [0]]
                             (Fin 2))) ! 2)
     = length (ex_heap3 ! 0) + length [[], [0::int]] * length (ex_heap3 ! 1)"
    by blast
  with b show ?thesis
    by (simp add: ex_heap3_simps ex_ligand3_def ex_cluster_def)
qed






text \<open>
  C1. The call on the two-atom ligand with the sites [[0], [1]] and bond distance 2
  returns. Atom 2 of the result is the coordinating atom of the first instance, atom 8
  is a non-coordinating atom of the second instance, and their distance is 1, half
  the bond distance: only the non-coordinating rows of an instance are recorded
  (line 182), so the coordinating atoms of the earlier instances are in no later
  steric test.
\<close>

theorem earlier_coordinating_atom_unchecked:
  "snd (ligand_metal_docking ieee_exact seed_lib ex_heap 0 1 [[0], [1]] (Fin 2)) = Ok 2 \<and>
   heap (fst (ligand_metal_docking ieee_exact seed_lib ex_heap 0 1 [[0], [1]] (Fin 2))) ! 2 ! 2
     = (''Zn'', (Fin 0, Fin 0, Fin 2)) \<and>
   heap (fst (ligand_metal_docking ieee_exact seed_lib ex_heap 0 1 [[0], [1]] (Fin 2))) ! 2 ! 8
     = (''O'', (Fin 1, Fin 0, Fin 2)) \<and>
   previous_metal_positions
     (fst (ligand_metal_docking ieee_exact seed_lib ex_heap 0 1 [[0], [1]] (Fin 2)))
     = [[(Fin 1, Fin 0, Fin 7), (Fin (- 1), Fin 0, Fin 7),
         (Fin 0, Fin 1, Fin 7), (Fin 0, Fin (- 1), Fin 7)],
        [(Fin 1, Fin 0, Fin 2), (Fin (- 1), Fin 0, Fin 2),
         (Fin 0, Fin 1, Fin 2), (Fin 0, Fin (- 1), Fin 2)]] \<and>
   norm3 ieee_exact (vsub ieee_exact (Fin 1, Fin 0, Fin 2) (Fin 0, Fin 0, Fin 2)) = Fin 1 \<and>
   xlt (Fin 1) (Fin 2)"
proof -
  obtain st r where
    d: "ligand_metal_docking ieee_exact seed_lib ex_heap 0 1 [[0], [1]] (Fin 2) = (st, r)"
    by (cases "ligand_metal_docking ieee_exact seed_lib ex_heap 0 1 [[0], [1]] (Fin 2)")
  have "(0::nat) < length ex_heap" "(1::nat) < length ex_heap"
    by (simp_all add: ex_heap_simps)
  from docking_placements [OF this d, unfolded ex_heap_simps ex_placements]
  have "previous_metal_positions st
     = [[(Fin 1, Fin 0, Fin 7), (Fin (- 1), Fin 0, Fin 7),
         (Fin 0, Fin 1, Fin 7), (Fin 0, Fin (- 1), Fin 7)],
        [(Fin 1, Fin 0, Fin 2), (Fin (- 1), Fin 0, Fin 2),
         (Fin 0, Fin 1, Fin 2), (Fin 0, Fin (- 1), Fin 2)]]"
    by simp
  moreover have "norm3 ieee_exact (vsub ieee_exact (Fin 1, Fin 0, Fin 2) (Fin 0, Fin 0, Fin 2))
                   = Fin 1"
    by (simp add: ieee_simps)
  ultimately show ?thesis
    using ex_run unfolding d by (simp add: ex_ligand_def)
qed

text \<open>
  C10 (as amended). \<^verbatim>\<open>ConvexHull\<close> is the library's: that it raises on a template
  of fewer than four atoms or with all atoms in one plane is Qhull's behaviour, not
  this program's. For every template on which it raises, a call with at least one
  site, the first one with its indices in the ligand's range, ends with that exception
  at the coordinating-atom selection of the first site (not with the steric error),
  after the position solver has run once and before anything is placed: the structure
  to return is still the bare copy of the ligand and no copy of the template exists.
  When the first site has an index outside the ligand's range the call ends before,
  with the IndexError of line 38, whatever the template. So every call with a site
  that returns has a template on which \<^verbatim>\<open>ConvexHull\<close> succeeded.
\<close>

theorem hull_exception_ends_call_at_first_site:
  assumes "ligand < length h" "metal_center < length h"
  shows "(hull_simplices lib (get_positions h metal_center) = Inl name \<and> sites \<noteq> [] \<and>
          (\<forall>i \<in> set (hd sites). - int (length (h ! ligand)) \<le> i \<and> i < int (length (h ! ligand)))
          \<longrightarrow> ligand_metal_docking ar lib h ligand metal_center sites bd =
                (\<lparr>heap = h @ [h ! ligand], previous_metal_positions = [],
                  calls = [Minimize_position bd]\<rparr>, Raise (HullError name))) \<and>
         (sites \<noteq> [] \<and>
          \<not> (\<forall>i \<in> set (hd sites). - int (length (h ! ligand)) \<le> i \<and> i < int (length (h ! ligand)))
          \<longrightarrow> ligand_metal_docking ar lib h ligand metal_center sites bd =
                (\<lparr>heap = h @ [h ! ligand], previous_metal_positions = [], calls = []\<rparr>,
                 Raise IndexError)) \<and>
         (snd (ligand_metal_docking ar lib h ligand metal_center sites bd) = Ok cs \<and> sites \<noteq> []
          \<longrightarrow> (\<exists>simplices. hull_simplices lib (get_positions h metal_center) = Inr simplices))"
proof (intro conjI impI)
  assume a: "hull_simplices lib (get_positions h metal_center) = Inl name \<and> sites \<noteq> [] \<and>
          (\<forall>i \<in> set (hd sites). - int (length (h ! ligand)) \<le> i \<and> i < int (length (h ! ligand)))"
  then obtain site rest where s: "sites = site # rest" by (cases sites) auto
  have "coordinating_atom lib (get_positions h metal_center) = Raise (HullError name)"
    using a by (simp add: coordinating_atom_def)
  from first_site_selection_raises [OF assms this, of site ar rest bd] a s
  show "ligand_metal_docking ar lib h ligand metal_center sites bd =
                (\<lparr>heap = h @ [h ! ligand], previous_metal_positions = [],
                  calls = [Minimize_position bd]\<rparr>, Raise (HullError name))"
    by simp
next
  assume b: "sites \<noteq> [] \<and>
          \<not> (\<forall>i \<in> set (hd sites). - int (length (h ! ligand)) \<le> i \<and> i < int (length (h ! ligand)))"
  then obtain site rest where s: "sites = site # rest" by (cases sites) auto
  from first_site_index_error [OF assms(1), of site ar lib metal_center rest bd] b s
  show "ligand_metal_docking ar lib h ligand metal_center sites bd =
                (\<lparr>heap = h @ [h ! ligand], previous_metal_positions = [], calls = []\<rparr>,
                 Raise IndexError)"
    by simp
next
  assume b: "snd (ligand_metal_docking ar lib h ligand metal_center sites bd) = Ok cs \<and> sites \<noteq> []"
  from docking_Ok_placements [OF assms conjunct1 [OF b]] obtain ps where
    ps: "placements ar lib (get_positions h ligand) (get_positions h metal_center) bd [] sites
           = Ok ps"
    by blast
  have "0 < length sites" using b by simp
  from placements_facts [OF ps this] obtain c where
    "coordinating_atom lib (get_positions h metal_center) = Ok c" by blast
  then show "\<exists>simplices. hull_simplices lib (get_positions h metal_center) = Inr simplices"
    by (auto simp: coordinating_atom_def split: sum.splits)
qed

theorem hull_exception_ends_call_at_first_site_witness:
  "ligand_metal_docking ieee_exact seed_lib ex_heap_flat 0 1 [[0], [1]] (Fin 2)
     = (\<lparr>heap = [ex_ligand, ex_flat, ex_ligand],
         previous_metal_positions = [], calls = [Minimize_position (Fin 2)]\<rparr>,
        Raise (HullError ''QhullError'')) \<and>
   ligand_metal_docking ieee_exact seed_lib [ex_ligand, []] 0 1 [[0], [1]] (Fin 2)
     = (\<lparr>heap = [ex_ligand, [], ex_ligand],
         previous_metal_positions = [], calls = [Minimize_position (Fin 2)]\<rparr>,
        Raise (HullError ''ValueError'')) \<and>
   snd (ligand_metal_docking ieee_exact seed_lib ex_heap 0 1 [[0], [1]] (Fin 2)) = Ok 2 \<and>
   (\<exists>simplices. hull_simplices seed_lib (get_positions ex_heap 1) = Inr simplices)"
proof -
  have r: "(0::nat) < length ex_heap_flat" "(1::nat) < length ex_heap_flat"
    by (simp_all add: ex_heap_flat_def)
  have d: "hull_simplices seed_lib (get_positions ex_heap_flat 1) = Inl ''QhullError''"
    by (simp add: seed_lib_def get_positions_def ex_heap_flat_def ex_flat_def)
  have i: "\<forall>i \<in> set (hd [[0], [1::int]]).
             - int (length (ex_heap_flat ! 0)) \<le> i \<and> i < int (length (ex_heap_flat ! 0))"
    by (simp add: ex_heap_flat_def ex_ligand_def)
  from hull_exception_ends_call_at_first_site
         [OF r, where lib = seed_lib and sites = "[[0], [1]]" and name = "''QhullError''"
            and ar = ieee_exact and bd = "Fin 2"] d i
  have one: "ligand_metal_docking ieee_exact seed_lib ex_heap_flat 0 1 [[0], [1]] (Fin 2)
     = (\<lparr>heap = ex_heap_flat @ [ex_heap_flat ! 0], previous_metal_positions = [],
         calls = [Minimize_position (Fin 2)]\<rparr>, Raise (HullError ''QhullError''))"
    by blast
  let ?h = "[ex_ligand, []] :: xfloat heap"
  have r2: "(0::nat) < length ?h" "(1::nat) < length ?h" by simp_all
  have d2: "hull_simplices seed_lib (get_positions ?h 1) = Inl ''ValueError''"
    by (simp add: seed_lib_def get_positions_def)
  have i2: "\<forall>i \<in> set (hd [[0], [1::int]]).
             - int (length (?h ! 0)) \<le> i \<and> i < int (length (?h ! 0))"
    by (simp add: ex_ligand_def)
  from hull_exception_ends_call_at_first_site
         [OF r2, where lib = seed_lib and sites = "[[0], [1]]" and name = "''ValueError''"
            and ar = ieee_exact and bd = "Fin 2"] d2 i2
  have two: "ligand_metal_docking ieee_exact seed_lib ?h 0 1 [[0], [1]] (Fin 2)
     = (\<lparr>heap = ?h @ [?h ! 0], previous_metal_positions = [],
         calls = [Minimize_position (Fin 2)]\<rparr>, Raise (HullError ''ValueError''))"
    by blast
  have r': "(0::nat) < length ex_heap" "(1::nat) < length ex_heap"
    by (simp_all add: ex_heap_simps)
  have ok: "snd (ligand_metal_docking ieee_exact seed_lib ex_heap 0 1 [[0], [1]] (Fin 2)) = Ok 2"
    using ex_run by simp
  from hull_exception_ends_call_at_first_site
         [OF r', where lib = seed_lib and sites = "[[0], [1]]" and ar = ieee_exact
            and bd = "Fin 2" and cs = 2] ok
  have three: "\<exists>simplices. hull_simplices seed_lib (get_positions ex_heap 1) = Inr simplices"
    by blast
  from one two ok three show ?thesis by (simp add: ex_heap_flat_def)
qed

text \<open>
  C10 as stated fails: the template of three atoms is degenerate, the call has a site,
  and it does not fail at the convex hull. The first site holds the index 5, which the
  two-atom ligand does not have: line 38 raises IndexError, before the position solver
  and before the hull.
\<close>

theorem degenerate_template_index_error_counterexample:
  "length (ex_heap_flat ! 1) = 3 \<and>
   hull_simplices seed_lib (get_positions ex_heap_flat 1) = Inl ''QhullError'' \<and>
   ligand_metal_docking ieee_exact seed_lib ex_heap_flat 0 1 [[5]] (Fin 2)
     = (\<lparr>heap = [ex_ligand, ex_flat, ex_ligand], previous_metal_positions = [], calls = []\<rparr>,
        Raise IndexError)"
  by (simp add: ligand_metal_docking_def atoms_copy_def site_step_def solve_position_def
        site_geometry_def take_rows_def get_positions_def Let_def seed_lib_def
        ex_heap_flat_def ex_flat_def ex_ligand_def)




text \<open>
  C4 (as amended). The placement of a site is a translation of the template's rows by
  (solved position - coordinating atom's row) followed by the rotation Rz Ry Rx about
  the solved position, at the angles the optimizer returns. Evaluated in exact real
  arithmetic, at every site that is placed: after the translation the coordinating
  atom is at the solved position; every rotation about that position, the optimized
  one included, leaves it there; and the final rows are a rigid motion of the
  template's rows (all pairwise distances are those of the template). In float64, in
  which the code evaluates the same formulas, none of these equalities is guaranteed.
\<close>

theorem placement_is_rigid_motion_in_exact_arithmetic:
  assumes "site_placement real_arith lib lp mp bd prev site_indices = (cl, Ok (final, others))"
  shows "\<exists>opt c.
           solve_position real_arith lib lp (length lp) site_indices bd
             = ([Minimize_position bd], Ok opt) \<and>
           coordinating_atom lib mp = Ok c \<and> c < length mp \<and>
           translated_positions real_arith mp c opt ! c = opt \<and>
           (\<forall>angles. rotated_positions real_arith (translated_positions real_arith mp c opt)
                        opt angles ! c = opt) \<and>
           (\<exists>angles. final = rotated_positions real_arith
                                (translated_positions real_arith mp c opt) opt angles) \<and>
           final ! c = opt \<and>
           length final = length mp \<and>
           (\<forall>i < length mp. \<forall>j < length mp.
              norm3 real_arith (vsub real_arith (final ! i) (final ! j))
                = norm3 real_arith (vsub real_arith (mp ! i) (mp ! j)))"
proof -
  from site_placement_Ok [OF assms] obtain opt c where
    sp: "solve_position real_arith lib lp (length lp) site_indices bd
           = ([Minimize_position bd], Ok opt)"
    and co: "coordinating_atom lib mp = Ok c" and c: "c < length mp"
    and fin: "final = optimized_positions real_arith lib lp prev mp c opt"
    by blast
  obtain angles where
    rot: "final = rotated_positions real_arith (translated_positions real_arith mp c opt)
                    opt angles"
    using fin optimized_positions_rotated by blast
  have tr: "translated_positions real_arith mp c opt ! c = opt"
    using c by (rule translated_coordinating)
  have fixd: "rotated_positions real_arith (translated_positions real_arith mp c opt) opt a ! c
                = opt" for a
    using c tr by (simp add: rotated_fixed)
  have dist: "norm3 real_arith (vsub real_arith (final ! i) (final ! j))
                = norm3 real_arith (vsub real_arith (mp ! i) (mp ! j))"
    if "i < length mp" "j < length mp" for i j
    using that unfolding rot by (simp add: rotated_distance translated_distance)
  have len: "length final = length mp" unfolding rot by simp
  have "final ! c = opt" unfolding rot by (rule fixd)
  with sp co c tr fixd dist rot len show ?thesis by blast
qed

theorem placement_is_rigid_motion_in_exact_arithmetic_witness:
  "site_placement real_arith seed_lib real_ligand_positions real_cluster_positions 2 [] [0] =
     ([Minimize_position 2, Minimize_rotation (0, 0, 0)],
      Ok ([(0, 0, 2), (1, 0, 7), (- 1, 0, 7), (0, 1, 7), (0, - 1, 7)],
          [(1, 0, 7), (- 1, 0, 7), (0, 1, 7), (0, - 1, 7)])) \<and>
   [(0, 0, 2), (1, 0, 7), (- 1, 0, 7), (0, 1, 7), (0, - 1, 7::real)] ! 0
     = (0::real, 0::real, 2) \<and>
   norm3 real_arith (vsub real_arith (1, 0, 7) (- 1, 0, 7))
     = norm3 real_arith (vsub real_arith (1, 0, 5) (- 1, 0, 5))"
proof -
  let ?final = "[(0, 0, 2), (1, 0, 7), (- 1, 0, 7), (0, 1, 7), (0, - 1, 7)] :: real vec3 list"
  from placement_is_rigid_motion_in_exact_arithmetic [OF real_site_0]
  have "\<forall>i < length real_cluster_positions. \<forall>j < length real_cluster_positions.
          norm3 real_arith (vsub real_arith (?final ! i) (?final ! j))
            = norm3 real_arith
                (vsub real_arith (real_cluster_positions ! i) (real_cluster_positions ! j))"
    by blast
  moreover have "1 < length real_cluster_positions" "2 < length real_cluster_positions"
    by (simp_all add: real_cluster_positions_def)
  ultimately have "norm3 real_arith (vsub real_arith (?final ! 1) (?final ! 2))
            = norm3 real_arith
                (vsub real_arith (real_cluster_positions ! 1) (real_cluster_positions ! 2))"
    by blast
  then have "norm3 real_arith (vsub real_arith (1, 0, 7) (- 1, 0, 7))
               = norm3 real_arith (vsub real_arith (1, 0, 5) (- 1, 0, 5))"
    by (simp add: real_cluster_positions_def)
  with real_site_0 show ?thesis by simp
qed

text \<open>
  C4 as stated fails in the arithmetic of the code. With the coordinating atom at
  x = 2^1023 and the solved position at x = -(2^1023), both finite, the translation
  vector overflows and the translated coordinating atom is at x = -inf, not at the
  solved position. At an empty site the solved position is NaN: the instance that is
  placed (and returned, the call goes on) has only NaN rows, and the distance between
  its atoms 1 and 2 is NaN where the template has 2.
\<close>

theorem placement_not_rigid_in_floats_counterexample:
  "translated_positions ieee_exact [(Fin (2 ^ 1023), Fin 0, Fin 0)] 0
       (Fin (- (2 ^ 1023)), Fin 0, Fin 0) ! 0
     = (MInf, Fin 0, Fin 0) \<and>
   site_placement ieee_exact seed_lib (map snd ex_ligand3) (map snd ex_cluster) (Fin 2) [] [] =
     ([Minimize_position (Fin 2), Minimize_rotation (Fin 0, Fin 0, Fin 0)],
      Ok ([(NaN, NaN, NaN), (NaN, NaN, NaN), (NaN, NaN, NaN), (NaN, NaN, NaN), (NaN, NaN, NaN)],
          [(NaN, NaN, NaN), (NaN, NaN, NaN), (NaN, NaN, NaN), (NaN, NaN, NaN)])) \<and>
   norm3 ieee_exact (vsub ieee_exact (NaN, NaN, NaN) (NaN, NaN, NaN)) = NaN \<and>
   norm3 ieee_exact (vsub ieee_exact (map snd ex_cluster ! 1) (map snd ex_cluster ! 2)) = Fin 2"
proof -
  have big: "- ((2::real) ^ 1023) - 2 ^ 1023 = - (2 ^ 1024)" by simp
  have a: "translated_positions ieee_exact [(Fin (2 ^ 1023), Fin 0, Fin 0)] 0
       (Fin (- (2 ^ 1023)), Fin 0, Fin 0) ! 0 = (MInf, Fin 0, Fin 0)"
    by (simp add: translated_positions_def ieee_exact_fields xsub_def overflow_def big)
  have c: "norm3 ieee_exact (vsub ieee_exact (NaN, NaN, NaN) (NaN, NaN, NaN)) = NaN"
    by (simp add: ieee_simps)
  have s4: "sqrt 4 = 2"
    using real_sqrt_abs2 [of 2] by simp
  have d: "norm3 ieee_exact (vsub ieee_exact (map snd ex_cluster ! 1) (map snd ex_cluster ! 2))
             = Fin 2"
    by (simp add: ex_cluster_def ieee_exact_fields xsub_def overflow_Fin s4)
  from a ex3_site_empty c d show ?thesis by blast
qed

end
